theory Spec2Isabelle
  imports Complex_Main
begin

section \<open>Text as Python sees it\<close>

text \<open>
  A Python \<open>str\<close> is a sequence of code points. The model uses \<^typ>\<open>string\<close> with one
  \<^typ>\<open>char\<close> per code point, which covers the code points below 256 (ASCII and Latin-1),
  the range of the Portuguese text of the CSV file.
\<close>

definition isspace :: "char \<Rightarrow> bool" where
  \<comment> \<open>\<open>str.isspace\<close> on one code point below 256\<close>
  "isspace c = (let n = (of_char c :: nat) in
     (9 \<le> n \<and> n \<le> 13) \<or> (28 \<le> n \<and> n \<le> 32) \<or> n = 133 \<or> n = 160)"

definition str_strip :: "string \<Rightarrow> string" where
  \<comment> \<open>\<open>str.strip()\<close>: leading and trailing whitespace removed\<close>
  "str_strip s = rev (dropWhile isspace (rev (dropWhile isspace s)))"

definition upper_char :: "char \<Rightarrow> string" where
  \<comment> \<open>\<open>str.upper()\<close> on one code point below 256: ASCII and Latin-1 letters; the sharp s
      becomes two letters; the capitals of the micro sign (181) and of y with diaeresis (255)
      lie beyond code point 255 and are outside the model, both are left as they are\<close>
  "upper_char c = (let n = (of_char c :: nat) in
     if 97 \<le> n \<and> n \<le> 122 then [char_of (n - 32)]
     else if n = 223 then ''SS''
     else if 224 \<le> n \<and> n \<le> 254 \<and> n \<noteq> 247 then [char_of (n - 32)]
     else [c])"

definition str_upper :: "string \<Rightarrow> string" where
  "str_upper s = concat (map upper_char s)"

definition SIM :: string where
  "SIM = ''SIM''"

definition NAO :: string where
  \<comment> \<open>the three code points N, A with tilde (195), O\<close>
  "NAO = [CHR ''N'', CHR 0xC3, CHR ''O'']"

definition rmbh_map :: "string \<Rightarrow> bool option" where
  \<comment> \<open>\<open>.map({'SIM': True, 'NAO': False})\<close>: a key that is not in the dict gives NaN\<close>
  "rmbh_map s = (if s = SIM then Some True else if s = NAO then Some False else None)"

fun digits_of :: "nat \<Rightarrow> string" where
  "digits_of n =
     (if n < 10 then [char_of (48 + n)] else digits_of (n div 10) @ [char_of (48 + n mod 10)])"

declare digits_of.simps [simp del]

definition str_int :: "int \<Rightarrow> string" where
  \<comment> \<open>\<open>str\<close> of an integer, as \<open>.astype(str)\<close> and the f-string \<open>f"RISP {r}"\<close> format it\<close>
  "str_int i = (if i < 0 then CHR ''-'' # digits_of (nat (- i)) else digits_of (nat i))"

section \<open>The data frame that \<open>pd.read_csv\<close> returns\<close>

text \<open>
  The model of \<open>load_and_clean_data\<close> starts after line 28, from the data frame that
  \<open>pd.read_csv\<close> returns: the reading of the file, and which text it turns into which dtype,
  are not modelled. Every column of that frame has one dtype. A column in which every cell
  is an integer is an \<open>int64\<close> column, one of numbers and empty cells a \<open>float64\<close> column
  (an empty cell is NaN), one of \<open>True\<close> and \<open>False\<close> a \<open>bool\<close> column; a column with a cell
  of any other text is an \<open>object\<close> column, whose cells are \<open>str\<close> objects, or NaN where the
  cell is empty (\<^term>\<open>None\<close>). So a column of codes such as \<open>0002\<close> arrives as the
  integers \<open>2\<close>, and a column without any text cell is not an \<open>object\<close> column.

  A finite \<open>float64\<close> value is given by the real number it stands for. The integers of an
  \<open>int64\<close> column are taken to lie between \<open>-2^63\<close> and \<open>2^63 - 1\<close>.
\<close>

datatype f64 = Finite real | PosInf | NegInf | NaN

datatype column =
    ObjectCol "string option list"
  | Int64Col "int list"
  | Float64Col "f64 list"
  | BoolCol "bool list"

record frame =
  col_municipio :: column
  col_cod_municipio :: column
  col_natureza :: column
  col_rmbh :: column
  col_registros :: column
  col_mes :: column
  col_ano :: column
  col_risp :: column

definition column_length :: "column \<Rightarrow> nat" where
  "column_length col =
     (case col of ObjectCol cells \<Rightarrow> length cells | Int64Col ks \<Rightarrow> length ks
      | Float64Col xs \<Rightarrow> length xs | BoolCol bs \<Rightarrow> length bs)"

definition rectangular :: "frame \<Rightarrow> bool" where
  \<comment> \<open>the columns of a data frame have one length, as they do in every frame of pandas\<close>
  "rectangular df =
     (let n = column_length (col_municipio df) in
      column_length (col_cod_municipio df) = n \<and> column_length (col_natureza df) = n
      \<and> column_length (col_rmbh df) = n \<and> column_length (col_registros df) = n
      \<and> column_length (col_mes df) = n \<and> column_length (col_ano df) = n
      \<and> column_length (col_risp df) = n)"

text \<open>
  What pandas makes of one text cell is code of pandas, not of this repository; the model
  takes it as a parameter. \<open>text_to_int s\<close> is the integer that \<open>pd.to_numeric\<close> reads in the
  text \<open>s\<close> when \<open>s\<close> is an integer literal of the \<open>int64\<close> range, \<open>text_to_float s\<close> the
  \<open>float64\<close> value that it reads in \<open>s\<close>, which under \<open>errors='coerce'\<close> is NaN for a text that
  is no number; \<open>float_to_str x\<close> is \<open>str(x)\<close> for a float. Integer literals beyond the
  \<open>int64\<close> range, of which pandas makes a \<open>uint64\<close> or an \<open>object\<close> column, are outside the
  model.
\<close>

record pandas =
  text_to_int :: "string \<Rightarrow> int option"
  text_to_float :: "string \<Rightarrow> f64"
  float_to_str :: "f64 \<Rightarrow> string"

datatype error =
    AttributeError
  | IntCastingNaNError
  | NotNullViolation
  | ForeignKeyViolation
  | UniqueViolation

datatype num = Int64 int | Float64 f64

definition str_accessor :: "column \<Rightarrow> error + string option list" where
  \<comment> \<open>the accessor \<open>.str\<close>: on a column that is not of dtype \<open>object\<close> it raises
      \<open>AttributeError\<close> (\<open>Can only use .str accessor with string values\<close>)\<close>
  "str_accessor col = (case col of ObjectCol cells \<Rightarrow> Inr cells | _ \<Rightarrow> Inl AttributeError)"

definition to_numeric :: "pandas \<Rightarrow> column \<Rightarrow> num list" where
  \<comment> \<open>\<open>pd.to_numeric(column, errors='coerce')\<close>. A numeric column is returned as it is (a
      \<open>bool\<close> column too; it is given here as the integers that the later \<open>.astype(int)\<close>
      makes of it, and it holds no NaN). An \<open>object\<close> column becomes an \<open>int64\<close> column when
      every cell is an integer literal, and else a \<open>float64\<close> column, in which an empty cell
      and a text that is no number are NaN\<close>
  "to_numeric P col =
     (case col of
        Int64Col ks \<Rightarrow> map Int64 ks
      | Float64Col xs \<Rightarrow> map Float64 xs
      | BoolCol bs \<Rightarrow> map (\<lambda>b. Int64 (if b then 1 else 0)) bs
      | ObjectCol cells \<Rightarrow>
          (case those (map (\<lambda>c. case c of None \<Rightarrow> None | Some s \<Rightarrow> text_to_int P s) cells) of
             Some ks \<Rightarrow> map Int64 ks
           | None \<Rightarrow>
               map (\<lambda>c. Float64 (case c of None \<Rightarrow> NaN | Some s \<Rightarrow> text_to_float P s)) cells))"

definition astype_str :: "pandas \<Rightarrow> column \<Rightarrow> string list" where
  \<comment> \<open>\<open>.astype(str)\<close>: \<open>str\<close> of every cell; of NaN it is \<open>'nan'\<close>\<close>
  "astype_str P col =
     (case col of
        ObjectCol cells \<Rightarrow> map (\<lambda>c. case c of None \<Rightarrow> ''nan'' | Some s \<Rightarrow> s) cells
      | Int64Col ks \<Rightarrow> map str_int ks
      | Float64Col xs \<Rightarrow> map (float_to_str P) xs
      | BoolCol bs \<Rightarrow> map (\<lambda>b. if b then ''True'' else ''False'') bs)"

definition trunc :: "real \<Rightarrow> int" where
  \<comment> \<open>rounding towards zero\<close>
  "trunc x = (if x < 0 then - \<lfloor>- x\<rfloor> else \<lfloor>x\<rfloor>)"

definition astype_int :: "num \<Rightarrow> int option" where
  \<comment> \<open>\<open>.astype(int)\<close> on one value, \<^term>\<open>None\<close> where it raises: pandas refuses to cast NaN and
      the infinities. A finite float is truncated; beyond the \<open>int64\<close> range the cast of
      numpy gives \<open>-2^63\<close> (on x86-64)\<close>
  "astype_int v =
     (case v of
        Int64 k \<Rightarrow> Some k
      | Float64 (Finite x) \<Rightarrow>
          Some (if - (2 ^ 63) \<le> trunc x \<and> trunc x < 2 ^ 63 then trunc x else - (2 ^ 63))
      | Float64 _ \<Rightarrow> None)"

fun astype_int_column :: "num list \<Rightarrow> error + int list" where
  \<comment> \<open>\<open>.astype(int)\<close> on a whole column: one NaN or infinity in the column raises\<close>
  "astype_int_column [] = Inr []"
| "astype_int_column (v # col) =
     (case astype_int v of
        None \<Rightarrow> Inl IntCastingNaNError
      | Some k \<Rightarrow>
          (case astype_int_column col of Inl e \<Rightarrow> Inl e | Inr ks \<Rightarrow> Inr (k # ks)))"

definition notna :: "num \<Rightarrow> bool" where
  \<comment> \<open>what \<open>dropna\<close> keeps: every value but NaN; an infinity is kept\<close>
  "notna v = (v \<noteq> Float64 NaN)"

section \<open>The normalizer: \<open>load_and_clean_data\<close>\<close>

text \<open>
  One row of the cleaned data frame. A text cell of the frame can be NaN; the loader is
  modelled on the rows whose text is there (\<open>string row\<close>).
\<close>

record 't row =
  municipio :: 't
  cod_municipio :: string
  natureza :: 't
  rmbh :: "bool option"
  registros :: int
  mes :: int
  ano :: int
  risp :: int
  natureza_padronizada :: 't

text \<open>One row of the frame after line 50, before \<open>dropna\<close>.\<close>

record coerced =
  c_municipio :: "string option"
  c_cod_municipio :: string
  c_natureza :: "string option"
  c_rmbh :: "bool option"
  c_registros :: num
  c_mes :: num
  c_ano :: num
  c_risp :: int

definition rmbh_cell :: "string option \<Rightarrow> bool option" where
  \<comment> \<open>\<open>.str.strip().str.upper().map({'SIM': True, 'NAO': False})\<close> on one cell of an
      \<open>object\<close> column; the string methods leave NaN as it is, and so does the map\<close>
  "rmbh_cell cell = (case cell of None \<Rightarrow> None | Some s \<Rightarrow> rmbh_map (str_upper (str_strip s)))"

definition coerce :: "pandas \<Rightarrow> frame \<Rightarrow> error + coerced list" where
  \<comment> \<open>lines 36 to 50, in the order of the source: the three uses of \<open>.str\<close> on the columns of
      the frame, which raise on a column that is not of dtype \<open>object\<close>; \<open>pd.to_numeric\<close>, which
      does not raise; the cast of \<open>risp\<close>, which raises on NaN and on an infinity. Then the
      frame row by row\<close>
  "coerce P df =
     (case str_accessor (col_municipio df) of Inl e \<Rightarrow> Inl e | Inr municipios \<Rightarrow>
      case str_accessor (col_natureza df) of Inl e \<Rightarrow> Inl e | Inr naturezas \<Rightarrow>
      case str_accessor (col_rmbh df) of Inl e \<Rightarrow> Inl e | Inr rmbhs \<Rightarrow>
      case astype_int_column (to_numeric P (col_risp df)) of Inl e \<Rightarrow> Inl e | Inr risps \<Rightarrow>
        Inr (map (\<lambda>(m, c, n, b, g, me, a, k).
                \<lparr> c_municipio = map_option (\<lambda>s. str_upper (str_strip s)) m,
                  c_cod_municipio = str_strip c,
                  c_natureza = map_option str_strip n,
                  c_rmbh = rmbh_cell b,
                  c_registros = g, c_mes = me, c_ano = a, c_risp = k \<rparr>)
             (zip municipios (zip (astype_str P (col_cod_municipio df)) (zip naturezas
               (zip rmbhs (zip (to_numeric P (col_registros df))
                 (zip (to_numeric P (col_mes df)) (zip (to_numeric P (col_ano df)) risps)))))))))"

definition dropna :: "coerced list \<Rightarrow> coerced list" where
  \<comment> \<open>\<open>dropna(subset=["registros", "mes", "ano", "risp"])\<close>; the column \<open>risp\<close> is an integer
      column by then and holds no NaN\<close>
  "dropna rows = filter (\<lambda>r. notna (c_registros r) \<and> notna (c_mes r) \<and> notna (c_ano r)) rows"

fun astype_int_rows :: "coerced list \<Rightarrow> error + string option row list" where
  \<comment> \<open>lines 56 to 65 on the rows that are left: the three casts, each of which raises on an
      infinity in its column, and the column \<open>natureza_padronizada\<close>\<close>
  "astype_int_rows [] = Inr []"
| "astype_int_rows (r # rows) =
     (case (astype_int (c_registros r), astype_int (c_mes r), astype_int (c_ano r)) of
        (Some g, Some m, Some a) \<Rightarrow>
          (case astype_int_rows rows of
             Inl e \<Rightarrow> Inl e
           | Inr out \<Rightarrow>
               Inr (\<lparr> municipio = c_municipio r, cod_municipio = c_cod_municipio r,
                      natureza = c_natureza r, rmbh = c_rmbh r, registros = g, mes = m,
                      ano = a, risp = c_risp r,
                      natureza_padronizada = map_option str_upper (c_natureza r) \<rparr> # out))
      | _ \<Rightarrow> Inl IntCastingNaNError)"

definition load_and_clean_data :: "pandas \<Rightarrow> frame \<Rightarrow> error + string option row list" where
  "load_and_clean_data P df =
     (case coerce P df of Inl e \<Rightarrow> Inl e | Inr rows \<Rightarrow> astype_int_rows (dropna rows))"

definition sample_pandas :: pandas where
  \<comment> \<open>conversions that agree with pandas on the texts \<open>12\<close> and \<open>abc\<close>, which is all that the
      worked examples below read of them\<close>
  "sample_pandas =
     \<lparr> text_to_int = (\<lambda>s. if s = ''12'' then Some 12 else None),
       text_to_float = (\<lambda>s. if s = ''12'' then Finite 12 else NaN),
       float_to_str = (\<lambda>x. ''nan'') \<rparr>"

section \<open>The projections: \<open>plot_crimes_por_mes\<close> and \<open>plot_crimes_por_trimestre\<close>\<close>

definition int64 :: "int \<Rightarrow> int" where
  \<comment> \<open>the value of an \<open>int64\<close> result: an integer modulo \<open>2^64\<close>, between \<open>-2^63\<close> and \<open>2^63 - 1\<close>\<close>
  "int64 k = (k + 2 ^ 63) mod 2 ^ 64 - 2 ^ 63"

definition groupby_sum :: "('t row \<Rightarrow> int) \<Rightarrow> 't row list \<Rightarrow> (int \<times> int) list" where
  \<comment> \<open>\<open>df.groupby(key)["registros"].sum().reset_index()\<close>: one line per key that occurs, in
      ascending order of the key, with the sum of \<open>registros\<close> over the rows of that key; the
      sum of an \<open>int64\<close> column is an \<open>int64\<close> and wraps around\<close>
  "groupby_sum key df =
     map (\<lambda>k. (k, int64 (sum_list (map registros (filter (\<lambda>r. key r = k) df)))))
         (sort (remdups (map key df)))"

definition reindex :: "int list \<Rightarrow> int \<Rightarrow> (int \<times> int) list \<Rightarrow> (int \<times> int) list" where
  \<comment> \<open>\<open>.set_index(key).reindex(idx, fill_value=fill).reset_index()\<close>: exactly the labels of
      \<open>idx\<close>, in that order; a label the table lacks gets \<open>fill\<close>, a line whose label is not in
      \<open>idx\<close> is left out\<close>
  "reindex idx fill tab =
     map (\<lambda>i. (i, case map_of tab i of None \<Rightarrow> fill | Some v \<Rightarrow> v)) idx"

definition plot_crimes_por_mes :: "'t row list \<Rightarrow> (int \<times> int) list" where
  \<comment> \<open>the table \<open>crimes_por_mes\<close> that the function prints and plots\<close>
  "plot_crimes_por_mes df = reindex [1..12] 0 (groupby_sum mes df)"



section \<open>The schema and the store\<close>

text \<open>
  The four mapped classes. Every column is declared \<open>nullable=False\<close> or is a primary key, so
  a stored line holds a value in every column; an absent value can only be offered to an
  insertion, which the store then refuses.
\<close>

record Risp =
  Risp_id :: int
  Risp_descricao :: string

record Municipio =
  Municipio_cod_municipio :: string
  Municipio_nome :: string
  Municipio_risp_id :: int

record TipoCrime =
  TipoCrime_id :: int
  TipoCrime_nome :: string

record Crime =
  Crime_id :: int
  Crime_mes :: int
  Crime_ano :: int
  Crime_registros :: int
  Crime_rmbh :: bool
  Crime_municipio_id :: string
  Crime_tipo_crime_id :: int

record store =
  risp_tab :: "Risp list"
  municipio_tab :: "Municipio list"
  tipo_crime_tab :: "TipoCrime list"
  crime_tab :: "Crime list"

definition empty_store :: store where
  "empty_store = \<lparr> risp_tab = [], municipio_tab = [], tipo_crime_tab = [], crime_tab = [] \<rparr>"

definition autoincrement :: "int list \<Rightarrow> int" where
  \<comment> \<open>the value an \<open>autoincrement=True\<close> key gets: above every id of the table, from 1 on. Nothing
      is ever deleted, so this is the counter of the store; values lost to a transaction that
      was rolled back are not modelled\<close>
  "autoincrement ids = fold max ids 0 + 1"

definition insert_risp :: "int \<Rightarrow> string \<Rightarrow> store \<Rightarrow> error + store" where
  \<comment> \<open>INSERT into \<open>risp\<close>: \<open>id\<close> is the primary key\<close>
  "insert_risp k d st =
     (if k \<in> Risp_id ` set (risp_tab st) then Inl UniqueViolation
      else Inr (st\<lparr>risp_tab := risp_tab st @ [\<lparr>Risp_id = k, Risp_descricao = d\<rparr>]\<rparr>))"

definition insert_municipio :: "string \<Rightarrow> string \<Rightarrow> int \<Rightarrow> store \<Rightarrow> error + store" where
  \<comment> \<open>INSERT into \<open>municipio\<close>: \<open>cod_municipio\<close> is the primary key, \<open>risp_id\<close> a foreign key\<close>
  "insert_municipio c n k st =
     (if c \<in> Municipio_cod_municipio ` set (municipio_tab st) then Inl UniqueViolation
      else if k \<notin> Risp_id ` set (risp_tab st) then Inl ForeignKeyViolation
      else Inr (st\<lparr>municipio_tab := municipio_tab st @
             [\<lparr>Municipio_cod_municipio = c, Municipio_nome = n, Municipio_risp_id = k\<rparr>]\<rparr>))"

definition insert_tipo_crime :: "string \<Rightarrow> store \<Rightarrow> error + store \<times> int" where
  \<comment> \<open>INSERT into \<open>tipo_crime\<close>: \<open>nome\<close> is \<open>unique=True\<close>; the store assigns the id, which is
      returned with the new store\<close>
  "insert_tipo_crime n st =
     (if n \<in> TipoCrime_nome ` set (tipo_crime_tab st) then Inl UniqueViolation
      else let i = autoincrement (map TipoCrime_id (tipo_crime_tab st)) in
        Inr (st\<lparr>tipo_crime_tab := tipo_crime_tab st @ [\<lparr>TipoCrime_id = i, TipoCrime_nome = n\<rparr>]\<rparr>, i))"

definition crime_key :: "Crime \<Rightarrow> string \<times> int \<times> int \<times> int" where
  \<comment> \<open>the columns of \<open>UniqueConstraint('municipio_id', 'tipo_crime_id', 'mes', 'ano')\<close>\<close>
  "crime_key c = (Crime_municipio_id c, Crime_tipo_crime_id c, Crime_mes c, Crime_ano c)"

definition insert_crime ::
  "int \<Rightarrow> int \<Rightarrow> int \<Rightarrow> bool option \<Rightarrow> string \<Rightarrow> int option \<Rightarrow> store \<Rightarrow> error + store" where
  \<comment> \<open>INSERT into \<open>crime\<close>. The object may carry an absent \<open>rmbh\<close> (NaN) or an absent
      \<open>tipo_crime_id\<close> (\<open>dict.get\<close> gave \<open>None\<close>): both columns are \<open>nullable=False\<close>. Then the
      unique constraint \<open>_crime_uc\<close> and the two foreign keys\<close>
  "insert_crime m a g b c t st =
     (case (b, t) of
        (Some b', Some t') \<Rightarrow>
          if (c, t', m, a) \<in> crime_key ` set (crime_tab st) then Inl UniqueViolation
          else if c \<notin> Municipio_cod_municipio ` set (municipio_tab st)
                  \<or> t' \<notin> TipoCrime_id ` set (tipo_crime_tab st) then Inl ForeignKeyViolation
          else Inr (st\<lparr>crime_tab := crime_tab st @
                 [\<lparr>Crime_id = autoincrement (map Crime_id (crime_tab st)), Crime_mes = m,
                   Crime_ano = a, Crime_registros = g, Crime_rmbh = b',
                   Crime_municipio_id = c, Crime_tipo_crime_id = t'\<rparr>]\<rparr>)
      | _ \<Rightarrow> Inl NotNullViolation)"

section \<open>The loader: \<open>create_normalized_database\<close>\<close>

fun unique :: "'a list \<Rightarrow> 'a list" where
  \<comment> \<open>\<open>Series.unique()\<close> and \<open>DataFrame.drop_duplicates()\<close>: the distinct values in the order
      of their first occurrence\<close>
  "unique [] = []"
| "unique (x # xs) = x # unique (filter (\<lambda>y. y \<noteq> x) xs)"

fun insert_risps :: "int list \<Rightarrow> store \<Rightarrow> error + store" where
  \<comment> \<open>the loop of lines 177 to 181; the query sees the objects added before it, since the
      session flushes them first (\<open>autoflush\<close>)\<close>
  "insert_risps [] st = Inr st"
| "insert_risps (r # rs) st =
     (case find (\<lambda>x. Risp_id x = r) (risp_tab st) of
        Some exists \<Rightarrow> insert_risps rs st
      | None \<Rightarrow>
          (case insert_risp r (''RISP '' @ str_int r) st of
             Inl e \<Rightarrow> Inl e
           | Inr st' \<Rightarrow> insert_risps rs st'))"

fun insert_municipios :: "(string \<times> string \<times> int) list \<Rightarrow> store \<Rightarrow> error + store" where
  \<comment> \<open>the loop of lines 189 to 197 over the lines \<open>(cod_municipio, municipio, risp)\<close>\<close>
  "insert_municipios [] st = Inr st"
| "insert_municipios ((c, n, k) # ms) st =
     (case find (\<lambda>x. Municipio_cod_municipio x = c) (municipio_tab st) of
        Some exists \<Rightarrow> insert_municipios ms st
      | None \<Rightarrow>
          (case insert_municipio c n k st of
             Inl e \<Rightarrow> Inl e
           | Inr st' \<Rightarrow> insert_municipios ms st'))"

fun insert_tipos ::
  "string list \<Rightarrow> (string \<rightharpoonup> int) \<Rightarrow> store \<Rightarrow> store \<times> (error + (string \<rightharpoonup> int))" where
  \<comment> \<open>the loop of lines 206 to 214, which commits after every insertion: the store that is
      returned with an error holds the types committed before it\<close>
  "insert_tipos [] tipo_crime_dict st = (st, Inr tipo_crime_dict)"
| "insert_tipos (nome # ns) tipo_crime_dict st =
     (case find (\<lambda>x. TipoCrime_nome x = nome) (tipo_crime_tab st) of
        Some existing \<Rightarrow> insert_tipos ns (tipo_crime_dict(nome \<mapsto> TipoCrime_id existing)) st
      | None \<Rightarrow>
          (case insert_tipo_crime nome st of
             Inl e \<Rightarrow> (st, Inl e)
           | Inr (st', new_id) \<Rightarrow> insert_tipos ns (tipo_crime_dict(nome \<mapsto> new_id)) st'))"

fun insert_crimes :: "string row list \<Rightarrow> (string \<rightharpoonup> int) \<Rightarrow> store \<Rightarrow> error + store" where
  \<comment> \<open>the loop of lines 222 to 238. \<open>filter_by(tipo_crime_id=None)\<close> is the test \<open>IS NULL\<close>,
      which no stored line passes\<close>
  "insert_crimes [] tipo_crime_dict st = Inr st"
| "insert_crimes (r # rs) tipo_crime_dict st =
     (let t = tipo_crime_dict (natureza_padronizada r) in
      case find (\<lambda>x. Crime_municipio_id x = cod_municipio r \<and> Some (Crime_tipo_crime_id x) = t
                      \<and> Crime_mes x = mes r \<and> Crime_ano x = ano r) (crime_tab st) of
        Some exists \<Rightarrow> insert_crimes rs tipo_crime_dict st
      | None \<Rightarrow>
          (case insert_crime (mes r) (ano r) (registros r) (rmbh r) (cod_municipio r) t st of
             Inl e \<Rightarrow> Inl e
           | Inr st' \<Rightarrow> insert_crimes rs tipo_crime_dict st'))"

datatype outcome = Skipped | Inserted | Failed error

definition create_normalized_database :: "string row list \<Rightarrow> store \<Rightarrow> store \<times> outcome" where
  \<comment> \<open>The store after the call, and how the call ended. An exception ends the program; what
      was added since the last \<open>session.commit()\<close> is not in the store then\<close>
  "create_normalized_database df st =
     (if crime_tab st \<noteq> [] then (st, Skipped)
      else
        case insert_risps (unique (map risp df)) st of
          Inl e \<Rightarrow> (st, Failed e)
        | Inr st1 \<Rightarrow>
        case insert_municipios
               (unique (map (\<lambda>r. (cod_municipio r, municipio r, risp r)) df)) st1 of
          Inl e \<Rightarrow> (st1, Failed e)
        | Inr st2 \<Rightarrow>
        case insert_tipos (unique (map natureza_padronizada df)) Map.empty st2 of
          (st3, Inl e) \<Rightarrow> (st3, Failed e)
        | (st3, Inr tipo_crime_dict) \<Rightarrow>
        case insert_crimes df tipo_crime_dict st3 of
          Inl e \<Rightarrow> (st3, Failed e)
        | Inr st4 \<Rightarrow> (st4, Inserted))"

fun load_all :: "string row list list \<Rightarrow> store \<Rightarrow> store" where
  \<comment> \<open>one run of the program after the other, each on the store the run before left\<close>
  "load_all [] st = st"
| "load_all (df # dfs) st = load_all dfs (fst (create_normalized_database df st))"

section \<open>Integrity of the store\<close>

text \<open>No two lines of a table share the natural key of that table.\<close>

definition unique_keys :: "store \<Rightarrow> bool" where
  "unique_keys st =
     (distinct (map Risp_id (risp_tab st))
      \<and> distinct (map Municipio_cod_municipio (municipio_tab st))
      \<and> distinct (map TipoCrime_nome (tipo_crime_tab st))
      \<and> distinct (map crime_key (crime_tab st)))"


section \<open>Properties of the normalizer\<close>

lemmas text_defs = isspace_def str_strip_def upper_char_def str_upper_def SIM_def NAO_def
  rmbh_map_def rmbh_cell_def char_of_def bit_0
lemmas frame_defs = load_and_clean_data_def coerce_def dropna_def str_accessor_def
  to_numeric_def astype_str_def astype_int_def trunc_def notna_def

lemma those_length: "those xs = Some ys \<Longrightarrow> length ys = length xs"
  by (induction xs arbitrary: ys) (auto split: option.splits)

lemma length_to_numeric: "length (to_numeric P col) = column_length col"
  by (auto simp: to_numeric_def column_length_def dest: those_length split: column.splits option.splits)

lemma length_astype_str: "length (astype_str P col) = column_length col"
  by (simp add: astype_str_def column_length_def split: column.splits)

lemma astype_int_column_None:
  "v \<in> set col \<Longrightarrow> astype_int v = None \<Longrightarrow> astype_int_column col = Inl IntCastingNaNError"
  by (induction col) (auto split: option.splits sum.splits)

lemma astype_int_column_Inr:
  "astype_int_column col = Inr ks \<Longrightarrow> length ks = length col"
  by (induction col arbitrary: ks) (auto split: option.splits sum.splits)

lemma astype_int_column_Int64: "astype_int_column (map Int64 ks) = Inr ks"
  by (induction ks) (auto simp: astype_int_def)

lemma to_numeric_coerces:
  assumes "Some s \<in> set cells" "text_to_int P s = None" "text_to_float P s = NaN"
  shows "Float64 NaN \<in> set (to_numeric P (ObjectCol cells))"
proof -
  have "those (map (\<lambda>c. case c of None \<Rightarrow> None | Some s \<Rightarrow> text_to_int P s) cells) = None"
    using assms(1,2) by (induction cells) (auto split: option.splits)
  with assms(1,3) show ?thesis by (force simp: to_numeric_def)
qed

lemma coerce_columns:
  assumes "rectangular df" "coerce P df = Inr rows"
  shows "length rows = column_length (col_municipio df)"
    and "map c_registros rows = to_numeric P (col_registros df)"
    and "map c_mes rows = to_numeric P (col_mes df)"
    and "map c_ano rows = to_numeric P (col_ano df)"
    and "astype_int_column (to_numeric P (col_risp df)) = Inr (map c_risp rows)"
    and "map c_cod_municipio rows = map str_strip (astype_str P (col_cod_municipio df))"
    and "\<exists>cells. col_rmbh df = ObjectCol cells \<and> map c_rmbh rows = map rmbh_cell cells"
    and "\<exists>cells. col_municipio df = ObjectCol cells
           \<and> map c_municipio rows = map (map_option (\<lambda>s. str_upper (str_strip s))) cells"
    and "\<exists>cells. col_natureza df = ObjectCol cells
           \<and> map c_natureza rows = map (map_option str_strip) cells"
proof -
  from assms(2) obtain ms ns bs ks where
    ms: "col_municipio df = ObjectCol ms" and ns: "col_natureza df = ObjectCol ns"
    and bs: "col_rmbh df = ObjectCol bs"
    and ks: "astype_int_column (to_numeric P (col_risp df)) = Inr ks"
    by (auto simp: coerce_def str_accessor_def split: column.splits sum.splits)
  let ?n = "length ms"
  from assms(1) ms ns bs have len:
    "length (astype_str P (col_cod_municipio df)) = ?n" "length ns = ?n" "length bs = ?n"
    "length (to_numeric P (col_registros df)) = ?n" "length (to_numeric P (col_mes df)) = ?n"
    "length (to_numeric P (col_ano df)) = ?n" "length (to_numeric P (col_risp df)) = ?n"
    by (simp_all add: rectangular_def Let_def length_to_numeric length_astype_str column_length_def)
  from astype_int_column_Inr [OF ks] len(7) have lk: "length ks = ?n" by simp
  from assms(2) have rows: "rows = map (\<lambda>t.
                \<lparr> c_municipio = map_option (\<lambda>s. str_upper (str_strip s)) (fst t),
                  c_cod_municipio = str_strip (fst (snd t)),
                  c_natureza = map_option str_strip (fst (snd (snd t))),
                  c_rmbh = rmbh_cell (fst (snd (snd (snd t)))),
                  c_registros = fst (snd (snd (snd (snd t)))),
                  c_mes = fst (snd (snd (snd (snd (snd t))))),
                  c_ano = fst (snd (snd (snd (snd (snd (snd t)))))),
                  c_risp = snd (snd (snd (snd (snd (snd (snd t)))))) \<rparr>)
             (zip ms (zip (astype_str P (col_cod_municipio df)) (zip ns
               (zip bs (zip (to_numeric P (col_registros df))
                 (zip (to_numeric P (col_mes df)) (zip (to_numeric P (col_ano df)) ks)))))))"
    by (auto simp: coerce_def str_accessor_def ms ns bs ks case_prod_unfold)
  show "length rows = column_length (col_municipio df)"
    by (simp add: rows len lk ms column_length_def)
  show "map c_registros rows = to_numeric P (col_registros df)"
    by (rule nth_equalityI) (simp_all add: rows len lk)
  show "map c_mes rows = to_numeric P (col_mes df)"
    by (rule nth_equalityI) (simp_all add: rows len lk)
  show "map c_ano rows = to_numeric P (col_ano df)"
    by (rule nth_equalityI) (simp_all add: rows len lk)
  have "map c_risp rows = ks"
    by (rule nth_equalityI) (simp_all add: rows len lk)
  with ks show "astype_int_column (to_numeric P (col_risp df)) = Inr (map c_risp rows)" by simp
  show "map c_cod_municipio rows = map str_strip (astype_str P (col_cod_municipio df))"
    by (rule nth_equalityI) (simp_all add: rows len lk)
  have "map c_rmbh rows = map rmbh_cell bs"
    by (rule nth_equalityI) (simp_all add: rows len lk)
  with bs show "\<exists>cells. col_rmbh df = ObjectCol cells \<and> map c_rmbh rows = map rmbh_cell cells"
    by simp
  have "map c_municipio rows = map (map_option (\<lambda>s. str_upper (str_strip s))) ms"
    by (rule nth_equalityI) (simp_all add: rows len lk)
  with ms show "\<exists>cells. col_municipio df = ObjectCol cells
           \<and> map c_municipio rows = map (map_option (\<lambda>s. str_upper (str_strip s))) cells"
    by simp
  have "map c_natureza rows = map (map_option str_strip) ns"
    by (rule nth_equalityI) (simp_all add: rows len lk)
  with ns show "\<exists>cells. col_natureza df = ObjectCol cells
           \<and> map c_natureza rows = map (map_option str_strip) cells"
    by simp
qed


lemma astype_int_rows_result:
  "astype_int_rows rows = Inr out \<Longrightarrow>
   list_all2 (\<lambda>r c. astype_int (c_registros r) = Some (registros c)
                  \<and> astype_int (c_mes r) = Some (mes c) \<and> astype_int (c_ano r) = Some (ano c)
                  \<and> rmbh c = c_rmbh r) rows out"
  by (induction rows arbitrary: out) (auto split: option.splits sum.splits)

lemma astype_int_rows_ok:
  "\<forall>r\<in>set rows. astype_int (c_registros r) \<noteq> None \<and> astype_int (c_mes r) \<noteq> None
       \<and> astype_int (c_ano r) \<noteq> None \<Longrightarrow>
   \<exists>out. astype_int_rows rows = Inr out"
  by (induction rows) auto

lemma load_rows:
  assumes "load_and_clean_data P df = Inr out"
  shows "\<exists>rows. coerce P df = Inr rows
           \<and> list_all2 (\<lambda>r c. astype_int (c_registros r) = Some (registros c)
                  \<and> astype_int (c_mes r) = Some (mes c) \<and> astype_int (c_ano r) = Some (ano c)
                  \<and> rmbh c = c_rmbh r) (dropna rows) out"
proof -
  from assms obtain rows where "coerce P df = Inr rows" "astype_int_rows (dropna rows) = Inr out"
    by (auto simp: load_and_clean_data_def split: sum.splits)
  with astype_int_rows_result show ?thesis by blast
qed

lemma astype_int_float_range:
  "astype_int (Float64 x) = Some k \<Longrightarrow> - (2 ^ 63) \<le> k \<and> k < 2 ^ 63"
  by (cases x) (auto simp: astype_int_def split: if_splits)

text \<open>
  C3. The claim: a row whose \<open>risp\<close> does not parse is dropped silently and the normalizer
  returns the remaining rows. Line 50 casts the whole column with \<open>.astype(int)\<close> before
  \<open>dropna\<close> runs on line 53, so one unparsable \<open>risp\<close> makes the call raise. Here the file has
  two rows, the first well formed and the second with \<open>risp = "abc"\<close>, so that \<open>risp\<close> is read
  as an \<open>object\<close> column; \<open>pd.to_numeric\<close> reads no number in \<open>abc\<close> and makes it NaN, and no
  data frame is returned.
\<close>

theorem risp_unparsable_raises:
  "text_to_int P ''abc'' = None \<and> text_to_float P ''abc'' = NaN \<longrightarrow>
   load_and_clean_data P
     \<lparr>col_municipio = ObjectCol [Some ''Betim'', Some ''Contagem''],
      col_cod_municipio = Int64Col [2, 3],
      col_natureza = ObjectCol [Some ''Roubo'', Some ''Roubo''],
      col_rmbh = ObjectCol [Some ''SIM'', Some ''SIM''],
      col_registros = Int64Col [3, 4], col_mes = Int64Col [1, 1],
      col_ano = Int64Col [2023, 2023],
      col_risp = ObjectCol [Some ''2'', Some ''abc'']\<rparr>
   = Inl IntCastingNaNError"
proof
  assume h: "text_to_int P ''abc'' = None \<and> text_to_float P ''abc'' = NaN"
  then have "Float64 NaN \<in> set (to_numeric P (ObjectCol [Some ''2'', Some ''abc'']))"
    by (intro to_numeric_coerces [of "''abc''"]) simp_all
  moreover have "astype_int (Float64 NaN) = None" by (simp add: astype_int_def)
  ultimately have "astype_int_column (to_numeric P (ObjectCol [Some ''2'', Some ''abc'']))
      = Inl IntCastingNaNError"
    by (rule astype_int_column_None)
  then show "load_and_clean_data P
     \<lparr>col_municipio = ObjectCol [Some ''Betim'', Some ''Contagem''],
      col_cod_municipio = Int64Col [2, 3],
      col_natureza = ObjectCol [Some ''Roubo'', Some ''Roubo''],
      col_rmbh = ObjectCol [Some ''SIM'', Some ''SIM''],
      col_registros = Int64Col [3, 4], col_mes = Int64Col [1, 1],
      col_ano = Int64Col [2023, 2023],
      col_risp = ObjectCol [Some ''2'', Some ''abc'']\<rparr>
   = Inl IntCastingNaNError"
    by (simp add: load_and_clean_data_def coerce_def str_accessor_def)
qed

theorem risp_unparsable_raises_witness:
  "load_and_clean_data sample_pandas
     \<lparr>col_municipio = ObjectCol [Some ''Betim'', Some ''Contagem''],
      col_cod_municipio = Int64Col [2, 3],
      col_natureza = ObjectCol [Some ''Roubo'', Some ''Roubo''],
      col_rmbh = ObjectCol [Some ''SIM'', Some ''SIM''],
      col_registros = Int64Col [3, 4], col_mes = Int64Col [1, 1],
      col_ano = Int64Col [2023, 2023],
      col_risp = ObjectCol [Some ''2'', Some ''abc'']\<rparr>
   = Inl IntCastingNaNError"
  using risp_unparsable_raises [of sample_pandas] by (simp add: sample_pandas_def)

text \<open>
  C4. The claim: the normalizer discards exactly the rows with an absent value in
  \<open>registros\<close>, \<open>mes\<close>, \<open>ano\<close> or \<open>risp\<close> after coercion. Here the second row has an empty
  \<open>risp\<close> cell, so that \<open>risp\<close> is read as a \<open>float64\<close> column with a NaN: by the claim that
  row is discarded and the first row is returned; the call raises on line 50 instead, before
  \<open>dropna\<close> is reached.
\<close>

theorem absent_risp_not_discarded:
  "load_and_clean_data P
     \<lparr>col_municipio = ObjectCol [Some ''Betim'', Some ''Betim''],
      col_cod_municipio = Int64Col [2, 2],
      col_natureza = ObjectCol [Some ''Furto'', Some ''Furto''],
      col_rmbh = ObjectCol [Some ''SIM'', Some ''SIM''],
      col_registros = Int64Col [7, 8], col_mes = Int64Col [5, 6],
      col_ano = Int64Col [2023, 2023],
      col_risp = Float64Col [Finite 2, NaN]\<rparr>
   = Inl IntCastingNaNError"
  by (simp add: frame_defs)

text \<open>
  C6. Every row of the cleaned data frame stems from a row that \<open>dropna\<close> keeps, and holds in
  \<open>registros\<close>, \<open>mes\<close> and \<open>ano\<close> the values that \<open>.astype(int)\<close> makes of what \<open>pd.to_numeric\<close>
  gives for its cells; these are of type \<^typ>\<open>int\<close>, and the cast of a float lies in the
  \<open>int64\<close> range. No bound is checked on \<open>mes\<close>: of the two rows of the claim, whatever their
  other cells hold, the first is kept with \<open>registros = 12\<close> and \<open>mes = 13\<close>, and the second,
  with \<open>registros = "abc"\<close>, is dropped. (With a cell \<open>abc\<close> the column \<open>registros\<close> is an
  \<open>object\<close> column; the columns \<open>mes\<close>, \<open>ano\<close> and \<open>risp\<close> hold integers only.)
\<close>

theorem numeric_columns_are_integers:
  "(load_and_clean_data P df = Inr out \<longrightarrow>
      (\<exists>rows. coerce P df = Inr rows
         \<and> list_all2 (\<lambda>r c. astype_int (c_registros r) = Some (registros c)
                  \<and> astype_int (c_mes r) = Some (mes c) \<and> astype_int (c_ano r) = Some (ano c))
             (dropna rows) out))
   \<and> (rectangular df \<and> coerce P df = Inr rows' \<longrightarrow>
        map c_registros rows' = to_numeric P (col_registros df)
        \<and> map c_mes rows' = to_numeric P (col_mes df)
        \<and> map c_ano rows' = to_numeric P (col_ano df))
   \<and> (astype_int (Float64 x) = Some i \<longrightarrow> - (2 ^ 63) \<le> i \<and> i < 2 ^ 63)
   \<and> (text_to_float P ''12'' = Finite 12 \<and> text_to_int P ''abc'' = None
         \<and> text_to_float P ''abc'' = NaN \<and> column_length cd = 2 \<longrightarrow>
       load_and_clean_data P
         \<lparr>col_municipio = ObjectCol [m1, m2], col_cod_municipio = cd,
          col_natureza = ObjectCol [n1, n2], col_rmbh = ObjectCol [b1, b2],
          col_registros = ObjectCol [Some ''12'', Some ''abc''], col_mes = Int64Col [13, m],
          col_ano = Int64Col [2023, a], col_risp = Int64Col [2, k]\<rparr>
       = Inr [\<lparr>municipio = map_option (\<lambda>s. str_upper (str_strip s)) m1,
               cod_municipio = str_strip (hd (astype_str P cd)),
               natureza = map_option str_strip n1, rmbh = rmbh_cell b1, registros = 12,
               mes = 13, ano = 2023, risp = 2,
               natureza_padronizada = map_option str_upper (map_option str_strip n1)\<rparr>])"
proof (intro conjI impI)
  assume "load_and_clean_data P df = Inr out"
  from load_rows [OF this] obtain rows where "coerce P df = Inr rows"
    "list_all2 (\<lambda>r c. astype_int (c_registros r) = Some (registros c)
                  \<and> astype_int (c_mes r) = Some (mes c) \<and> astype_int (c_ano r) = Some (ano c)
                  \<and> rmbh c = c_rmbh r) (dropna rows) out"
    by blast
  moreover from this(2) have
    "list_all2 (\<lambda>r c. astype_int (c_registros r) = Some (registros c)
                  \<and> astype_int (c_mes r) = Some (mes c) \<and> astype_int (c_ano r) = Some (ano c))
       (dropna rows) out"
    by (rule list_all2_mono) simp
  ultimately show "\<exists>rows. coerce P df = Inr rows
         \<and> list_all2 (\<lambda>r c. astype_int (c_registros r) = Some (registros c)
                  \<and> astype_int (c_mes r) = Some (mes c) \<and> astype_int (c_ano r) = Some (ano c))
             (dropna rows) out"
    by blast
next
  assume "rectangular df \<and> coerce P df = Inr rows'"
  then show "map c_registros rows' = to_numeric P (col_registros df)"
    "map c_mes rows' = to_numeric P (col_mes df)" "map c_ano rows' = to_numeric P (col_ano df)"
    using coerce_columns(2,3,4) by blast+
next
  assume "astype_int (Float64 x) = Some i"
  then show "- (2 ^ 63) \<le> i" "i < 2 ^ 63" using astype_int_float_range by blast+
next
  assume h: "text_to_float P ''12'' = Finite 12 \<and> text_to_int P ''abc'' = None
         \<and> text_to_float P ''abc'' = NaN \<and> column_length cd = 2"
  then have num: "to_numeric P (ObjectCol [Some ''12'', Some ''abc''])
      = [Float64 (Finite 12), Float64 NaN]"
    by (simp add: to_numeric_def split: option.splits)
  from h have "length (astype_str P cd) = 2" by (simp add: length_astype_str)
  then obtain c1 c2 where cd: "astype_str P cd = [c1, c2]"
    by (auto simp: length_Suc_conv numeral_2_eq_2)
  from num show "load_and_clean_data P
         \<lparr>col_municipio = ObjectCol [m1, m2], col_cod_municipio = cd,
          col_natureza = ObjectCol [n1, n2], col_rmbh = ObjectCol [b1, b2],
          col_registros = ObjectCol [Some ''12'', Some ''abc''], col_mes = Int64Col [13, m],
          col_ano = Int64Col [2023, a], col_risp = Int64Col [2, k]\<rparr>
       = Inr [\<lparr>municipio = map_option (\<lambda>s. str_upper (str_strip s)) m1,
               cod_municipio = str_strip (hd (astype_str P cd)),
               natureza = map_option str_strip n1, rmbh = rmbh_cell b1, registros = 12,
               mes = 13, ano = 2023, risp = 2,
               natureza_padronizada = map_option str_upper (map_option str_strip n1)\<rparr>]"
    by (simp add: load_and_clean_data_def coerce_def dropna_def str_accessor_def cd
        astype_int_def trunc_def notna_def astype_int_column_Int64
        to_numeric_def [of P "Int64Col ks" for ks])
qed

lemmas digit_defs = str_int_def digits_of.simps

theorem numeric_columns_are_integers_witness:
  "rectangular
       \<lparr>col_municipio = ObjectCol [Some '' Betim'', Some ''Contagem''],
        col_cod_municipio = Int64Col [2, 3],
        col_natureza = ObjectCol [Some ''Furto'', Some ''Roubo''],
        col_rmbh = ObjectCol [Some ''SIM'', Some ''talvez''],
        col_registros = ObjectCol [Some ''12'', Some ''abc''], col_mes = Int64Col [13, 1],
        col_ano = Int64Col [2023, 2023], col_risp = Int64Col [2, 2]\<rparr>
   \<and> load_and_clean_data sample_pandas
       \<lparr>col_municipio = ObjectCol [Some '' Betim'', Some ''Contagem''],
        col_cod_municipio = Int64Col [2, 3],
        col_natureza = ObjectCol [Some ''Furto'', Some ''Roubo''],
        col_rmbh = ObjectCol [Some ''SIM'', Some ''talvez''],
        col_registros = ObjectCol [Some ''12'', Some ''abc''], col_mes = Int64Col [13, 1],
        col_ano = Int64Col [2023, 2023], col_risp = Int64Col [2, 2]\<rparr>
     = Inr [\<lparr>municipio = Some ''BETIM'', cod_municipio = ''2'', natureza = Some ''Furto'',
             rmbh = Some True, registros = 12, mes = 13, ano = 2023, risp = 2,
             natureza_padronizada = Some ''FURTO''\<rparr>]
   \<and> coerce sample_pandas
       \<lparr>col_municipio = ObjectCol [Some '' Betim'', Some ''Contagem''],
        col_cod_municipio = Int64Col [2, 3],
        col_natureza = ObjectCol [Some ''Furto'', Some ''Roubo''],
        col_rmbh = ObjectCol [Some ''SIM'', Some ''talvez''],
        col_registros = ObjectCol [Some ''12'', Some ''abc''], col_mes = Int64Col [13, 1],
        col_ano = Int64Col [2023, 2023], col_risp = Int64Col [2, 2]\<rparr>
     = Inr [\<lparr>c_municipio = Some ''BETIM'', c_cod_municipio = ''2'', c_natureza = Some ''Furto'',
             c_rmbh = Some True, c_registros = Float64 (Finite 12), c_mes = Int64 13,
             c_ano = Int64 2023, c_risp = 2\<rparr>,
            \<lparr>c_municipio = Some ''CONTAGEM'', c_cod_municipio = ''3'',
             c_natureza = Some ''Roubo'', c_rmbh = None, c_registros = Float64 NaN,
             c_mes = Int64 1, c_ano = Int64 2023, c_risp = 2\<rparr>]
   \<and> astype_int (Float64 (Finite 12)) = Some 12"
proof -
  have rect: "rectangular
       \<lparr>col_municipio = ObjectCol [Some '' Betim'', Some ''Contagem''],
        col_cod_municipio = Int64Col [2, 3],
        col_natureza = ObjectCol [Some ''Furto'', Some ''Roubo''],
        col_rmbh = ObjectCol [Some ''SIM'', Some ''talvez''],
        col_registros = ObjectCol [Some ''12'', Some ''abc''], col_mes = Int64Col [13, 1],
        col_ano = Int64Col [2023, 2023], col_risp = Int64Col [2, 2]\<rparr>"
    by (simp add: rectangular_def column_length_def)
  have co: "coerce sample_pandas
       \<lparr>col_municipio = ObjectCol [Some '' Betim'', Some ''Contagem''],
        col_cod_municipio = Int64Col [2, 3],
        col_natureza = ObjectCol [Some ''Furto'', Some ''Roubo''],
        col_rmbh = ObjectCol [Some ''SIM'', Some ''talvez''],
        col_registros = ObjectCol [Some ''12'', Some ''abc''], col_mes = Int64Col [13, 1],
        col_ano = Int64Col [2023, 2023], col_risp = Int64Col [2, 2]\<rparr>
     = Inr [\<lparr>c_municipio = Some ''BETIM'', c_cod_municipio = ''2'', c_natureza = Some ''Furto'',
             c_rmbh = Some True, c_registros = Float64 (Finite 12), c_mes = Int64 13,
             c_ano = Int64 2023, c_risp = 2\<rparr>,
            \<lparr>c_municipio = Some ''CONTAGEM'', c_cod_municipio = ''3'',
             c_natureza = Some ''Roubo'', c_rmbh = None, c_registros = Float64 NaN,
             c_mes = Int64 1, c_ano = Int64 2023, c_risp = 2\<rparr>]"
    by (simp add: frame_defs sample_pandas_def digit_defs text_defs)
  have cast: "astype_int (Float64 (Finite 12)) = Some 12"
    by (simp add: astype_int_def trunc_def)
  note ex = numeric_columns_are_integers
    [where P = sample_pandas and ?m1.0 = "Some '' Betim''" and ?m2.0 = "Some ''Contagem''"
       and cd = "Int64Col [2, 3]" and ?n1.0 = "Some ''Furto''" and ?n2.0 = "Some ''Roubo''"
       and ?b1.0 = "Some ''SIM''" and ?b2.0 = "Some ''talvez''" and m = 1 and a = 2023 and k = 2,
     THEN conjunct2, THEN conjunct2, THEN conjunct2]
  have "load_and_clean_data sample_pandas
       \<lparr>col_municipio = ObjectCol [Some '' Betim'', Some ''Contagem''],
        col_cod_municipio = Int64Col [2, 3],
        col_natureza = ObjectCol [Some ''Furto'', Some ''Roubo''],
        col_rmbh = ObjectCol [Some ''SIM'', Some ''talvez''],
        col_registros = ObjectCol [Some ''12'', Some ''abc''], col_mes = Int64Col [13, 1],
        col_ano = Int64Col [2023, 2023], col_risp = Int64Col [2, 2]\<rparr>
     = Inr [\<lparr>municipio = Some ''BETIM'', cod_municipio = ''2'', natureza = Some ''Furto'',
             rmbh = Some True, registros = 12, mes = 13, ano = 2023, risp = 2,
             natureza_padronizada = Some ''FURTO''\<rparr>]"
    using mp [OF ex]
    by (simp add: sample_pandas_def column_length_def astype_str_def digit_defs text_defs)
  with rect co cast show ?thesis by simp
qed

lemma str_strip_pad:
  assumes "list_all isspace a" "list_all isspace b" "t \<noteq> []" "\<not> isspace (hd t)" "\<not> isspace (last t)"
  shows "str_strip (a @ t @ b) = t"
proof -
  from assms(1) have "dropWhile isspace (a @ t @ b) = dropWhile isspace (t @ b)"
    by (simp add: dropWhile_append2 list_all_iff)
  also from assms(3,4) have "\<dots> = t @ b" by (cases t) auto
  finally have 1: "dropWhile isspace (a @ t @ b) = t @ b" .
  from assms(2) have "dropWhile isspace (rev b @ rev t) = dropWhile isspace (rev t)"
    by (intro dropWhile_append2) (simp add: list_all_iff)
  also from assms(3,5) have "\<dots> = rev t" by (cases "rev t") (auto simp: last_rev hd_rev)
  finally show ?thesis by (simp add: str_strip_def 1)
qed

lemma str_upper_casing: "list_all2 (\<lambda>c d. upper_char c = [d]) t u \<Longrightarrow> str_upper t = u"
  by (induction rule: list_all2_induct) (auto simp: str_upper_def)


lemma coerce_ok:
  "col_municipio df = ObjectCol ms \<Longrightarrow> col_natureza df = ObjectCol ns \<Longrightarrow>
   col_rmbh df = ObjectCol bs \<Longrightarrow> astype_int_column (to_numeric P (col_risp df)) = Inr ks \<Longrightarrow>
   \<exists>rows. coerce P df = Inr rows"
  by (simp add: coerce_def str_accessor_def)

lemma rmbh_not_text_raises:
  assumes "col_municipio df = ObjectCol ms" "col_natureza df = ObjectCol ns"
    "\<forall>bs. col_rmbh df \<noteq> ObjectCol bs"
  shows "load_and_clean_data P df = Inl AttributeError"
  using assms by (cases "col_rmbh df")
    (simp_all add: load_and_clean_data_def coerce_def str_accessor_def)

lemma load_int64_columns:
  assumes "rectangular df" "col_municipio df = ObjectCol ms" "col_natureza df = ObjectCol ns"
    "col_rmbh df = ObjectCol bs" "col_registros df = Int64Col gs" "col_mes df = Int64Col mes'"
    "col_ano df = Int64Col as" "col_risp df = Int64Col ks"
  shows "\<exists>out. load_and_clean_data P df = Inr out \<and> map rmbh out = map rmbh_cell bs"
proof -
  have "astype_int_column (to_numeric P (col_risp df)) = Inr ks"
    by (simp add: assms(8) to_numeric_def astype_int_column_Int64)
  from coerce_ok [OF assms(2,3,4) this] obtain rows where rows: "coerce P df = Inr rows"
    by blast
  note cols = coerce_columns [OF assms(1) rows]
  from cols(7) assms(4) have rb: "map c_rmbh rows = map rmbh_cell bs" by simp
  have g: "\<exists>i. c_registros r = Int64 i" if "r \<in> set rows" for r
  proof -
    from that have "c_registros r \<in> set (map c_registros rows)" by simp
    then show ?thesis unfolding cols(2) assms(5) by (auto simp: to_numeric_def)
  qed
  have m: "\<exists>i. c_mes r = Int64 i" if "r \<in> set rows" for r
  proof -
    from that have "c_mes r \<in> set (map c_mes rows)" by simp
    then show ?thesis unfolding cols(3) assms(6) by (auto simp: to_numeric_def)
  qed
  have a: "\<exists>i. c_ano r = Int64 i" if "r \<in> set rows" for r
  proof -
    from that have "c_ano r \<in> set (map c_ano rows)" by simp
    then show ?thesis unfolding cols(4) assms(7) by (auto simp: to_numeric_def)
  qed
  have "notna (c_registros r) \<and> notna (c_mes r) \<and> notna (c_ano r)" if "r \<in> set rows" for r
    using g [OF that] m [OF that] a [OF that] by (auto simp: notna_def)
  then have keep: "dropna rows = rows"
    unfolding dropna_def by (intro filter_True) blast
  have "astype_int (c_registros r) \<noteq> None \<and> astype_int (c_mes r) \<noteq> None
       \<and> astype_int (c_ano r) \<noteq> None" if "r \<in> set rows" for r
    using g [OF that] m [OF that] a [OF that] by (auto simp: astype_int_def)
  then have "\<forall>r\<in>set rows. astype_int (c_registros r) \<noteq> None \<and> astype_int (c_mes r) \<noteq> None
       \<and> astype_int (c_ano r) \<noteq> None"
    by blast
  from astype_int_rows_ok [OF this] obtain out where out: "astype_int_rows rows = Inr out"
    by blast
  from astype_int_rows_result [OF out] have "list_all2 (\<lambda>r c. rmbh c = c_rmbh r) rows out"
    by (rule list_all2_mono) simp
  then have "map rmbh out = map c_rmbh rows"
    by (induction rule: list_all2_induct) auto
  with rows keep out rb show ?thesis by (simp add: load_and_clean_data_def)
qed


text \<open>
  C7. When the column \<open>rmbh\<close> of the frame is a column of text (dtype \<open>object\<close>), the normalizer
  maps every cell of it: an empty cell stays absent; a cell that is \<open>SIM\<close> in any mix of upper
  and lower case, with whitespace around it, maps to true, and one that is \<open>NAO\<close> (with the
  tilde) in any case maps to false; a cell maps to true exactly when its text, stripped and
  in upper case, is \<open>SIM\<close>, to false exactly when it is \<open>NAO\<close>, and to an absent value
  otherwise. The rows of the cleaned data frame carry these values, and when the numeric
  columns hold integers only the normalizer returns one row for every row of the frame.
  When the column \<open>rmbh\<close> is not a column of text, the normalizer raises on line 42.
\<close>

theorem rmbh_mapping:
  "(rectangular df \<and> coerce P df = Inr rows \<longrightarrow>
      (\<exists>cells. col_rmbh df = ObjectCol cells \<and> map c_rmbh rows = map rmbh_cell cells))
   \<and> (load_and_clean_data P df = Inr out \<longrightarrow>
        (\<exists>rows. coerce P df = Inr rows \<and> map rmbh out = map c_rmbh (dropna rows)))
   \<and> (rectangular df \<and> col_municipio df = ObjectCol ms \<and> col_natureza df = ObjectCol ns
        \<and> col_rmbh df = ObjectCol bs \<and> col_registros df = Int64Col gs
        \<and> col_mes df = Int64Col mes' \<and> col_ano df = Int64Col as \<and> col_risp df = Int64Col ks
       \<longrightarrow> (\<exists>out. load_and_clean_data P df = Inr out \<and> map rmbh out = map rmbh_cell bs))
   \<and> (col_municipio df = ObjectCol ms \<and> col_natureza df = ObjectCol ns
        \<and> (\<forall>bs. col_rmbh df \<noteq> ObjectCol bs)
       \<longrightarrow> load_and_clean_data P df = Inl AttributeError)
   \<and> rmbh_cell None = None
   \<and> (list_all isspace a \<and> list_all isspace b \<and> list_all2 (\<lambda>c d. upper_char c = [d]) t SIM
        \<longrightarrow> rmbh_cell (Some (a @ t @ b)) = Some True)
   \<and> (list_all isspace a \<and> list_all isspace b \<and> list_all2 (\<lambda>c d. upper_char c = [d]) t NAO
        \<longrightarrow> rmbh_cell (Some (a @ t @ b)) = Some False)
   \<and> (rmbh_cell (Some s) = Some True \<longleftrightarrow> str_upper (str_strip s) = SIM)
   \<and> (rmbh_cell (Some s) = Some False \<longleftrightarrow> str_upper (str_strip s) = NAO)
   \<and> (str_upper (str_strip s) \<noteq> SIM \<and> str_upper (str_strip s) \<noteq> NAO
        \<longrightarrow> rmbh_cell (Some s) = None)"
proof -
  have pad: "str_upper (str_strip (a @ t @ b)) = u"
    if "list_all isspace a" "list_all isspace b" "list_all2 (\<lambda>c d. upper_char c = [d]) t u"
       "u = SIM \<or> u = NAO" for u
  proof -
    from that(3,4) obtain x y z where t: "t = [x, y, z]"
      and x: "upper_char x = ''S'' \<or> upper_char x = ''N''"
      and z: "upper_char z = ''M'' \<or> upper_char z = ''O''"
      by (auto simp: SIM_def NAO_def list_all2_Cons2)
    have "\<not> isspace x"
      using x by (auto simp: isspace_def upper_char_def Let_def split: if_splits)
    moreover have "\<not> isspace z"
      using z by (auto simp: isspace_def upper_char_def Let_def split: if_splits)
    ultimately have "str_strip (a @ t @ b) = t"
      using that(1,2) by (intro str_strip_pad) (simp_all add: t)
    with that(3) show ?thesis by (simp add: str_upper_casing)
  qed
  have sim_nao: "SIM \<noteq> NAO" by (simp add: SIM_def NAO_def)
  have cells: "list_all isspace a \<and> list_all isspace b
        \<and> list_all2 (\<lambda>c d. upper_char c = [d]) t SIM
        \<longrightarrow> rmbh_cell (Some (a @ t @ b)) = Some True"
    "list_all isspace a \<and> list_all isspace b \<and> list_all2 (\<lambda>c d. upper_char c = [d]) t NAO
        \<longrightarrow> rmbh_cell (Some (a @ t @ b)) = Some False"
    "rmbh_cell (Some s) = Some True \<longleftrightarrow> str_upper (str_strip s) = SIM"
    "rmbh_cell (Some s) = Some False \<longleftrightarrow> str_upper (str_strip s) = NAO"
    "str_upper (str_strip s) \<noteq> SIM \<and> str_upper (str_strip s) \<noteq> NAO
        \<longrightarrow> rmbh_cell (Some s) = None"
    "rmbh_cell None = None"
    using pad [of SIM] pad [of NAO] sim_nao by (auto simp: rmbh_cell_def rmbh_map_def)
  have kept: "\<exists>rows. coerce P df = Inr rows \<and> map rmbh out = map c_rmbh (dropna rows)"
    if "load_and_clean_data P df = Inr out"
  proof -
    from load_rows [OF that] obtain rows where rows: "coerce P df = Inr rows"
      and "list_all2 (\<lambda>r c. astype_int (c_registros r) = Some (registros c)
                  \<and> astype_int (c_mes r) = Some (mes c) \<and> astype_int (c_ano r) = Some (ano c)
                  \<and> rmbh c = c_rmbh r) (dropna rows) out"
      by blast
    then have "list_all2 (\<lambda>r c. rmbh c = c_rmbh r) (dropna rows) out"
      by (elim list_all2_mono) simp
    then have "map rmbh out = map c_rmbh (dropna rows)"
      by (induction rule: list_all2_induct) auto
    with rows show ?thesis by blast
  qed
  show ?thesis
    using coerce_columns(7) [of df P rows] kept load_int64_columns [of df ms ns bs gs mes' as ks P]
      rmbh_not_text_raises [of df ms ns P] cells
    by blast
qed

theorem rmbh_mapping_witness:
  "map rmbh_cell [Some '' sIm'', Some [CHR ''n'', CHR 0xE3, CHR ''O'', CHR 0xA0],
                  Some ''talvez'', None]
     = [Some True, Some False, None, None]
   \<and> (\<exists>out. load_and_clean_data sample_pandas
        \<lparr>col_municipio = ObjectCol [Some ''Betim'', Some ''Betim'', Some ''Ibirite'', Some ''Betim''],
         col_cod_municipio = Int64Col [2, 2, 4, 2],
         col_natureza = ObjectCol [Some ''Furto'', Some ''Roubo'', Some ''Furto'', Some ''Furto''],
         col_rmbh = ObjectCol [Some '' sIm'', Some [CHR ''n'', CHR 0xE3, CHR ''O'', CHR 0xA0],
                              Some ''talvez'', None],
         col_registros = Int64Col [7, 8, 9, 1], col_mes = Int64Col [5, 6, 7, 8],
         col_ano = Int64Col [2023, 2023, 2023, 2023], col_risp = Int64Col [2, 2, 3, 2]\<rparr>
        = Inr out
      \<and> map rmbh out = [Some True, Some False, None, None])"
proof -
  have ev: "map rmbh_cell [Some '' sIm'', Some [CHR ''n'', CHR 0xE3, CHR ''O'', CHR 0xA0],
                  Some ''talvez'', None]
     = [Some True, Some False, None, None]"
    by (simp add: text_defs)
  have rect: "rectangular
        \<lparr>col_municipio = ObjectCol [Some ''Betim'', Some ''Betim'', Some ''Ibirite'', Some ''Betim''],
         col_cod_municipio = Int64Col [2, 2, 4, 2],
         col_natureza = ObjectCol [Some ''Furto'', Some ''Roubo'', Some ''Furto'', Some ''Furto''],
         col_rmbh = ObjectCol [Some '' sIm'', Some [CHR ''n'', CHR 0xE3, CHR ''O'', CHR 0xA0],
                              Some ''talvez'', None],
         col_registros = Int64Col [7, 8, 9, 1], col_mes = Int64Col [5, 6, 7, 8],
         col_ano = Int64Col [2023, 2023, 2023, 2023], col_risp = Int64Col [2, 2, 3, 2]\<rparr>"
    by (simp add: rectangular_def column_length_def)
  note inst = rmbh_mapping
    [where P = sample_pandas
       and df = "\<lparr>col_municipio = ObjectCol [Some ''Betim'', Some ''Betim'', Some ''Ibirite'', Some ''Betim''],
         col_cod_municipio = Int64Col [2, 2, 4, 2],
         col_natureza = ObjectCol [Some ''Furto'', Some ''Roubo'', Some ''Furto'', Some ''Furto''],
         col_rmbh = ObjectCol [Some '' sIm'', Some [CHR ''n'', CHR 0xE3, CHR ''O'', CHR 0xA0],
                              Some ''talvez'', None],
         col_registros = Int64Col [7, 8, 9, 1], col_mes = Int64Col [5, 6, 7, 8],
         col_ano = Int64Col [2023, 2023, 2023, 2023], col_risp = Int64Col [2, 2, 3, 2]\<rparr>"
       and ms = "[Some ''Betim'', Some ''Betim'', Some ''Ibirite'', Some ''Betim'']"
       and ns = "[Some ''Furto'', Some ''Roubo'', Some ''Furto'', Some ''Furto'']"
       and bs = "[Some '' sIm'', Some [CHR ''n'', CHR 0xE3, CHR ''O'', CHR 0xA0],
                  Some ''talvez'', None]"
       and gs = "[7, 8, 9, 1]" and mes' = "[5, 6, 7, 8]" and as = "[2023, 2023, 2023, 2023]"
       and ks = "[2, 2, 3, 2]",
     THEN conjunct2, THEN conjunct2, THEN conjunct1]
  have "\<exists>out. load_and_clean_data sample_pandas
        \<lparr>col_municipio = ObjectCol [Some ''Betim'', Some ''Betim'', Some ''Ibirite'', Some ''Betim''],
         col_cod_municipio = Int64Col [2, 2, 4, 2],
         col_natureza = ObjectCol [Some ''Furto'', Some ''Roubo'', Some ''Furto'', Some ''Furto''],
         col_rmbh = ObjectCol [Some '' sIm'', Some [CHR ''n'', CHR 0xE3, CHR ''O'', CHR 0xA0],
                              Some ''talvez'', None],
         col_registros = Int64Col [7, 8, 9, 1], col_mes = Int64Col [5, 6, 7, 8],
         col_ano = Int64Col [2023, 2023, 2023, 2023], col_risp = Int64Col [2, 2, 3, 2]\<rparr>
        = Inr out
      \<and> map rmbh out = map rmbh_cell [Some '' sIm'',
            Some [CHR ''n'', CHR 0xE3, CHR ''O'', CHR 0xA0], Some ''talvez'', None]"
    by (rule mp [OF inst]) (simp add: rect)
  with ev show ?thesis by simp
qed

text \<open>
  A file in which no \<open>rmbh\<close> cell holds text: both cells are empty, the column is read as a
  \<open>float64\<close> column of NaN, and \<open>.str\<close> on line 42 raises; the missing values are not mapped
  to absent values of a cleaned data frame.
\<close>

theorem rmbh_column_without_text_raises:
  "load_and_clean_data sample_pandas
     \<lparr>col_municipio = ObjectCol [Some ''Betim'', Some ''Contagem''],
      col_cod_municipio = Int64Col [2, 3],
      col_natureza = ObjectCol [Some ''Furto'', Some ''Roubo''],
      col_rmbh = Float64Col [NaN, NaN],
      col_registros = Int64Col [7, 8], col_mes = Int64Col [5, 6],
      col_ano = Int64Col [2023, 2023], col_risp = Int64Col [2, 2]\<rparr>
   = Inl AttributeError"
  by (simp add: frame_defs)

section \<open>Properties of the projections\<close>

lemma int64_id: "- (2 ^ 63) \<le> k \<Longrightarrow> k < 2 ^ 63 \<Longrightarrow> int64 k = k"
  by (simp add: int64_def)

lemma int64_0: "int64 0 = 0"
  by (simp add: int64_def)

lemma map_of_groupby_sum:
  "map_of (groupby_sum key df) k =
     (if k \<in> key ` set df
      then Some (int64 (sum_list (map registros (filter (\<lambda>r. key r = k) df))))
      else None)"
  by (simp add: groupby_sum_def map_of_map_restrict restrict_map_def)

lemma sum_list_no_rows:
  "k \<notin> key ` set df \<Longrightarrow> sum_list (map registros (filter (\<lambda>r. key r = k) df)) = 0"
  by (induction df) auto

lemma reindex_groupby_sum:
  "reindex idx 0 (groupby_sum key df) =
     map (\<lambda>i. (i, int64 (sum_list (map registros (filter (\<lambda>r. key r = i) df))))) idx"
  by (simp add: reindex_def map_of_groupby_sum sum_list_no_rows int64_0)

lemma upto_1_12: "[1..12] = [1, 2, 3, 4, 5, 6, 7, 8, 9, 10, 11, 12 :: int]"
  by (simp add: upto_rec1)




text \<open>
  C8. For every cleaned data frame the table by month has exactly the twelve lines of the
  months 1 to 12, in this order. The value of a month is the sum of \<open>registros\<close> over the rows
  of that month, taken in \<open>int64\<close> arithmetic: it is that sum whenever the sum lies between
  \<open>-2^63\<close> and \<open>2^63 - 1\<close>, and it is 0 for a month without rows. With rows of the months 5 and
  11 only, the ten other months are there with the value 0.
\<close>

theorem crimes_por_mes_zero_fill:
  "plot_crimes_por_mes df =
     map (\<lambda>m. (m, int64 (sum_list (map registros (filter (\<lambda>r. mes r = m) df))))) [1..12]
   \<and> length (plot_crimes_por_mes df) = 12
   \<and> map fst (plot_crimes_por_mes df) = [1, 2, 3, 4, 5, 6, 7, 8, 9, 10, 11, 12]
   \<and> (\<forall>m\<in>set [1..12]. - (2 ^ 63) \<le> sum_list (map registros (filter (\<lambda>r. mes r = m) df))
          \<and> sum_list (map registros (filter (\<lambda>r. mes r = m) df)) < 2 ^ 63 \<longrightarrow>
        (m, sum_list (map registros (filter (\<lambda>r. mes r = m) df)))
          \<in> set (plot_crimes_por_mes df))
   \<and> (\<forall>m\<in>set [1..12]. (\<forall>r\<in>set df. mes r \<noteq> m) \<longrightarrow> (m, 0) \<in> set (plot_crimes_por_mes df))
   \<and> ((\<forall>r\<in>set df. mes r = 5 \<or> mes r = 11) \<longrightarrow>
        (\<exists>v w. plot_crimes_por_mes df =
           [(1, 0), (2, 0), (3, 0), (4, 0), (5, v), (6, 0), (7, 0), (8, 0), (9, 0), (10, 0),
            (11, w), (12, 0)]))"
proof -
  have eq: "plot_crimes_por_mes df =
     map (\<lambda>m. (m, int64 (sum_list (map registros (filter (\<lambda>r. mes r = m) df))))) [1..12]"
    by (simp add: plot_crimes_por_mes_def reindex_groupby_sum)
  have zero: "sum_list (map registros (filter (\<lambda>r. mes r = m) df)) = 0"
    if "\<forall>r\<in>set df. mes r \<noteq> m" for m
    using that by (intro sum_list_no_rows) auto
  have exact: "(m, sum_list (map registros (filter (\<lambda>r. mes r = m) df)))
          \<in> set (plot_crimes_por_mes df)"
    if "m \<in> set [1..12]" "- (2 ^ 63) \<le> sum_list (map registros (filter (\<lambda>r. mes r = m) df))"
      "sum_list (map registros (filter (\<lambda>r. mes r = m) df)) < 2 ^ 63" for m
    unfolding eq using that(1) int64_id [OF that(2,3)] by (auto simp: image_iff)
  have "(m, 0) \<in> set (plot_crimes_por_mes df)" if "m \<in> set [1..12]" "\<forall>r\<in>set df. mes r \<noteq> m" for m
    unfolding eq using that(1) zero [OF that(2)] by (auto simp: image_iff int64_0)
  moreover have "\<exists>v w. plot_crimes_por_mes df =
           [(1, 0), (2, 0), (3, 0), (4, 0), (5, v), (6, 0), (7, 0), (8, 0), (9, 0), (10, 0),
            (11, w), (12, 0)]" if h: "\<forall>r\<in>set df. mes r = 5 \<or> mes r = 11"
  proof -
    have "sum_list (map registros (filter (\<lambda>r. mes r = m) df)) = 0" if "m \<noteq> 5" "m \<noteq> 11" for m
      using h that by (intro zero) auto
    then show ?thesis unfolding eq upto_1_12 by (simp add: int64_0)
  qed
  moreover have "length (plot_crimes_por_mes df) = 12"
    "map fst (plot_crimes_por_mes df) = [1, 2, 3, 4, 5, 6, 7, 8, 9, 10, 11, 12]"
    unfolding eq upto_1_12 by simp_all
  ultimately show ?thesis using eq exact by blast
qed

theorem crimes_por_mes_zero_fill_witness:
  "plot_crimes_por_mes
     [\<lparr>municipio = ''BETIM'', cod_municipio = ''2'', natureza = ''Furto'',
       rmbh = Some True, registros = 3, mes = 5, ano = 2023, risp = 2,
       natureza_padronizada = ''FURTO''\<rparr>,
      \<lparr>municipio = ''BETIM'', cod_municipio = ''2'', natureza = ''Furto'',
       rmbh = Some True, registros = 4, mes = 11, ano = 2023, risp = 2,
       natureza_padronizada = ''FURTO''\<rparr>,
      \<lparr>municipio = ''BETIM'', cod_municipio = ''2'', natureza = ''Furto'',
       rmbh = Some True, registros = 2, mes = 5, ano = 2023, risp = 2,
       natureza_padronizada = ''FURTO''\<rparr>]
   = [(1, 0), (2, 0), (3, 0), (4, 0), (5, 5), (6, 0), (7, 0), (8, 0), (9, 0), (10, 0),
      (11, 4), (12, 0)]"
  using crimes_por_mes_zero_fill
    [of "[\<lparr>municipio = ''BETIM'', cod_municipio = ''2'', natureza = ''Furto'',
           rmbh = Some True, registros = 3, mes = 5, ano = 2023, risp = 2,
           natureza_padronizada = ''FURTO''\<rparr>,
          \<lparr>municipio = ''BETIM'', cod_municipio = ''2'', natureza = ''Furto'',
           rmbh = Some True, registros = 4, mes = 11, ano = 2023, risp = 2,
           natureza_padronizada = ''FURTO''\<rparr>,
          \<lparr>municipio = ''BETIM'', cod_municipio = ''2'', natureza = ''Furto'',
           rmbh = Some True, registros = 2, mes = 5, ano = 2023, risp = 2,
           natureza_padronizada = ''FURTO''\<rparr>]"]
  by (simp add: upto_1_12 int64_def)

text \<open>
  A sum beyond the \<open>int64\<close> range wraps around: two rows of month 5 with the \<open>registros\<close>
  \<open>9223372036854775807\<close> and \<open>1\<close> give month 5 the value \<open>-9223372036854775808\<close>, which is not
  their sum.
\<close>

theorem crimes_por_mes_sum_wraps:
  "plot_crimes_por_mes
     [\<lparr>municipio = ''BETIM'', cod_municipio = ''2'', natureza = ''Furto'',
       rmbh = Some True, registros = 9223372036854775807, mes = 5, ano = 2023, risp = 2,
       natureza_padronizada = ''FURTO''\<rparr>,
      \<lparr>municipio = ''BETIM'', cod_municipio = ''2'', natureza = ''Furto'',
       rmbh = Some True, registros = 1, mes = 5, ano = 2023, risp = 2,
       natureza_padronizada = ''FURTO''\<rparr>]
   = [(1, 0), (2, 0), (3, 0), (4, 0), (5, - 9223372036854775808), (6, 0), (7, 0), (8, 0),
      (9, 0), (10, 0), (11, 0), (12, 0)]"
  by (simp add: plot_crimes_por_mes_def reindex_groupby_sum upto_1_12 int64_def)




section \<open>Properties of the loader\<close>

lemmas store_defs = create_normalized_database_def insert_risp_def insert_municipio_def
  insert_tipo_crime_def insert_crime_def empty_store_def autoincrement_def crime_key_def
  str_int_def digits_of.simps char_of_def bit_0 Let_def

lemma find_None_image: "find (\<lambda>x. f x = k) xs = None \<longleftrightarrow> k \<notin> f ` set xs"
  by (auto simp: find_None_iff)

lemma find_Some_image: "find (\<lambda>x. f x = k) xs = Some y \<Longrightarrow> k \<in> f ` set xs"
  by (auto simp: find_Some_iff)

lemma find_append_left: "find P xs = Some y \<Longrightarrow> find P (xs @ ys) = Some y"
  by (induction xs) auto

lemma insert_risps_result:
  "\<exists>ext. insert_risps rs st = Inr (st\<lparr>risp_tab := risp_tab st @ ext\<rparr>)
        \<and> set rs \<subseteq> Risp_id ` set (risp_tab st @ ext)
        \<and> Risp_id ` set ext \<subseteq> set rs - Risp_id ` set (risp_tab st)
        \<and> distinct (map Risp_id ext)"
proof (induction rs arbitrary: st)
  case Nil
  show ?case by (intro exI [of _ "[]"]) simp
next
  case (Cons r rs)
  show ?case
  proof (cases "find (\<lambda>x. Risp_id x = r) (risp_tab st)")
    case (Some x)
    then have "r \<in> Risp_id ` set (risp_tab st)" by (rule find_Some_image)
    with Cons.IH [of st] Some show ?thesis by auto
  next
    case None
    then have new: "r \<notin> Risp_id ` set (risp_tab st)" by (simp add: find_None_image)
    let ?x = "\<lparr>Risp_id = r, Risp_descricao = ''RISP '' @ str_int r\<rparr>"
    let ?st = "st\<lparr>risp_tab := risp_tab st @ [?x]\<rparr>"
    from Cons.IH [of ?st] obtain ext where
      ext: "insert_risps rs ?st = Inr (?st\<lparr>risp_tab := risp_tab ?st @ ext\<rparr>)"
        "set rs \<subseteq> Risp_id ` set (risp_tab ?st @ ext)"
        "Risp_id ` set ext \<subseteq> set rs - Risp_id ` set (risp_tab ?st)"
        "distinct (map Risp_id ext)"
      by blast
    show ?thesis
      using None new ext by (intro exI [of _ "?x # ext"]) (auto simp: insert_risp_def)
  qed
qed

lemma insert_risps_noop:
  "set rs \<subseteq> Risp_id ` set (risp_tab st) \<Longrightarrow> insert_risps rs st = Inr st"
proof (induction rs)
  case Nil
  show ?case by simp
next
  case (Cons r rs)
  then have "find (\<lambda>x. Risp_id x = r) (risp_tab st) \<noteq> None" by (simp add: find_None_image)
  with Cons show ?case by auto
qed

lemma insert_municipios_result:
  "insert_municipios ms st = Inr st' \<Longrightarrow>
   \<exists>ext. st' = st\<lparr>municipio_tab := municipio_tab st @ ext\<rparr>
        \<and> fst ` set ms \<subseteq> Municipio_cod_municipio ` set (municipio_tab st @ ext)
        \<and> Municipio_cod_municipio ` set ext
            \<subseteq> fst ` set ms - Municipio_cod_municipio ` set (municipio_tab st)
        \<and> distinct (map Municipio_cod_municipio ext)
        \<and> Municipio_risp_id ` set ext \<subseteq> Risp_id ` set (risp_tab st)"
proof (induction ms arbitrary: st)
  case Nil
  then show ?case by (intro exI [of _ "[]"]) simp
next
  case (Cons m ms)
  obtain c n k where m: "m = (c, n, k)" by (cases m)
  show ?case
  proof (cases "find (\<lambda>x. Municipio_cod_municipio x = c) (municipio_tab st)")
    case (Some x)
    then have "c \<in> Municipio_cod_municipio ` set (municipio_tab st)" by (rule find_Some_image)
    moreover from Cons.prems Some have "insert_municipios ms st = Inr st'" by (simp add: m)
    ultimately show ?thesis using Cons.IH [of st] by (auto simp: m)
  next
    case None
    then have new: "c \<notin> Municipio_cod_municipio ` set (municipio_tab st)"
      by (simp add: find_None_image)
    let ?x = "\<lparr>Municipio_cod_municipio = c, Municipio_nome = n, Municipio_risp_id = k\<rparr>"
    let ?st = "st\<lparr>municipio_tab := municipio_tab st @ [?x]\<rparr>"
    from Cons.prems None new have k: "k \<in> Risp_id ` set (risp_tab st)"
      and rest: "insert_municipios ms ?st = Inr st'"
      by (auto simp: m insert_municipio_def split: if_splits)
    from Cons.IH [OF rest] obtain ext where
      ext: "st' = ?st\<lparr>municipio_tab := municipio_tab ?st @ ext\<rparr>"
        "fst ` set ms \<subseteq> Municipio_cod_municipio ` set (municipio_tab ?st @ ext)"
        "Municipio_cod_municipio ` set ext
            \<subseteq> fst ` set ms - Municipio_cod_municipio ` set (municipio_tab ?st)"
        "distinct (map Municipio_cod_municipio ext)"
        "Municipio_risp_id ` set ext \<subseteq> Risp_id ` set (risp_tab ?st)"
      by blast
    show ?thesis
      using new k ext by (intro exI [of _ "?x # ext"]) (auto simp: m)
  qed
qed

lemma insert_municipios_noop:
  "fst ` set ms \<subseteq> Municipio_cod_municipio ` set (municipio_tab st) \<Longrightarrow>
   insert_municipios ms st = Inr st"
proof (induction ms)
  case Nil
  show ?case by simp
next
  case (Cons m ms)
  obtain c n k where m: "m = (c, n, k)" by (cases m)
  from Cons.prems have "find (\<lambda>x. Municipio_cod_municipio x = c) (municipio_tab st) \<noteq> None"
    by (simp add: find_None_image m)
  with Cons show ?case by (auto simp: m)
qed


lemma find_append_right: "find P xs = None \<Longrightarrow> find P (xs @ ys) = find P ys"
  by (induction xs) (auto split: if_splits)

lemma insert_tipos_result:
  "\<exists>ext. insert_tipos ns d st =
          (st\<lparr>tipo_crime_tab := tipo_crime_tab st @ ext\<rparr>,
           Inr (\<lambda>n. if n \<in> set ns
                     then map_option TipoCrime_id
                            (find (\<lambda>x. TipoCrime_nome x = n) (tipo_crime_tab st @ ext))
                     else d n))
        \<and> set ns \<subseteq> TipoCrime_nome ` set (tipo_crime_tab st @ ext)
        \<and> TipoCrime_nome ` set ext \<subseteq> set ns - TipoCrime_nome ` set (tipo_crime_tab st)
        \<and> distinct (map TipoCrime_nome ext)"
proof (induction ns arbitrary: d st)
  case Nil
  show ?case by (intro exI [of _ "[]"]) simp
next
  case (Cons n ns)
  show ?case
  proof (cases "find (\<lambda>x. TipoCrime_nome x = n) (tipo_crime_tab st)")
    case (Some t)
    then have n: "n \<in> TipoCrime_nome ` set (tipo_crime_tab st)" by (rule find_Some_image)
    from Cons.IH [of "d(n \<mapsto> TipoCrime_id t)" st] obtain ext where
      ext: "insert_tipos ns (d(n \<mapsto> TipoCrime_id t)) st =
          (st\<lparr>tipo_crime_tab := tipo_crime_tab st @ ext\<rparr>,
           Inr (\<lambda>m. if m \<in> set ns
                     then map_option TipoCrime_id
                            (find (\<lambda>x. TipoCrime_nome x = m) (tipo_crime_tab st @ ext))
                     else (d(n \<mapsto> TipoCrime_id t)) m))"
        "set ns \<subseteq> TipoCrime_nome ` set (tipo_crime_tab st @ ext)"
        "TipoCrime_nome ` set ext \<subseteq> set ns - TipoCrime_nome ` set (tipo_crime_tab st)"
        "distinct (map TipoCrime_nome ext)"
      by blast
    have "(\<lambda>m. if m \<in> set ns
                then map_option TipoCrime_id
                       (find (\<lambda>x. TipoCrime_nome x = m) (tipo_crime_tab st @ ext))
                else (d(n \<mapsto> TipoCrime_id t)) m)
        = (\<lambda>m. if m \<in> set (n # ns)
                then map_option TipoCrime_id
                       (find (\<lambda>x. TipoCrime_nome x = m) (tipo_crime_tab st @ ext))
                else d m)"
      using find_append_left [OF Some, of ext] by (auto simp: fun_eq_iff)
    with Some n ext show ?thesis by (intro exI [of _ ext]) auto
  next
    case None
    then have new: "n \<notin> TipoCrime_nome ` set (tipo_crime_tab st)" by (simp add: find_None_image)
    define i where "i = autoincrement (map TipoCrime_id (tipo_crime_tab st))"
    let ?x = "\<lparr>TipoCrime_id = i, TipoCrime_nome = n\<rparr>"
    let ?st = "st\<lparr>tipo_crime_tab := tipo_crime_tab st @ [?x]\<rparr>"
    have ins: "insert_tipo_crime n st = Inr (?st, i)"
      using new by (simp add: insert_tipo_crime_def i_def Let_def)
    from Cons.IH [of "d(n \<mapsto> i)" ?st] obtain ext where
      ext: "insert_tipos ns (d(n \<mapsto> i)) ?st =
          (?st\<lparr>tipo_crime_tab := tipo_crime_tab ?st @ ext\<rparr>,
           Inr (\<lambda>m. if m \<in> set ns
                     then map_option TipoCrime_id
                            (find (\<lambda>x. TipoCrime_nome x = m) (tipo_crime_tab ?st @ ext))
                     else (d(n \<mapsto> i)) m))"
        "set ns \<subseteq> TipoCrime_nome ` set (tipo_crime_tab ?st @ ext)"
        "TipoCrime_nome ` set ext \<subseteq> set ns - TipoCrime_nome ` set (tipo_crime_tab ?st)"
        "distinct (map TipoCrime_nome ext)"
      by blast
    have "find (\<lambda>x. TipoCrime_nome x = n) (tipo_crime_tab st @ ?x # ext) = Some ?x"
      using find_append_right [OF None, of "?x # ext"] by simp
    then have "(\<lambda>m. if m \<in> set ns
                then map_option TipoCrime_id
                       (find (\<lambda>x. TipoCrime_nome x = m) (tipo_crime_tab ?st @ ext))
                else (d(n \<mapsto> i)) m)
        = (\<lambda>m. if m \<in> set (n # ns)
                then map_option TipoCrime_id
                       (find (\<lambda>x. TipoCrime_nome x = m) (tipo_crime_tab st @ ?x # ext))
                else d m)"
      by (auto simp: fun_eq_iff)
    with None ins new ext show ?thesis by (intro exI [of _ "?x # ext"]) auto
  qed
qed

lemma insert_tipos_noop:
  assumes "set ns \<subseteq> TipoCrime_nome ` set (tipo_crime_tab st)"
  shows "insert_tipos ns d st =
          (st, Inr (\<lambda>n. if n \<in> set ns
                     then map_option TipoCrime_id
                            (find (\<lambda>x. TipoCrime_nome x = n) (tipo_crime_tab st))
                     else d n))"
proof -
  from insert_tipos_result [of ns d st] obtain ext where
    ext: "insert_tipos ns d st =
          (st\<lparr>tipo_crime_tab := tipo_crime_tab st @ ext\<rparr>,
           Inr (\<lambda>n. if n \<in> set ns
                     then map_option TipoCrime_id
                            (find (\<lambda>x. TipoCrime_nome x = n) (tipo_crime_tab st @ ext))
                     else d n))"
      "TipoCrime_nome ` set ext \<subseteq> set ns - TipoCrime_nome ` set (tipo_crime_tab st)"
    by blast
  from ext(2) assms have nil: "ext = []" by (cases ext) auto
  from ext(1) show ?thesis unfolding nil append_Nil2 by simp
qed

lemma insert_crimes_result:
  "insert_crimes rs d st = Inr st' \<Longrightarrow>
   \<exists>ext. st' = st\<lparr>crime_tab := crime_tab st @ ext\<rparr>
        \<and> distinct (map crime_key ext)
        \<and> crime_key ` set ext \<inter> crime_key ` set (crime_tab st) = {}
        \<and> Crime_municipio_id ` set ext \<subseteq> Municipio_cod_municipio ` set (municipio_tab st)
        \<and> Crime_tipo_crime_id ` set ext \<subseteq> TipoCrime_id ` set (tipo_crime_tab st)"
proof (induction rs arbitrary: st)
  case Nil
  then show ?case by (intro exI [of _ "[]"]) simp
next
  case (Cons r rs)
  let ?t = "d (natureza_padronizada r)"
  let ?P = "\<lambda>x. Crime_municipio_id x = cod_municipio r \<and> Some (Crime_tipo_crime_id x) = ?t
                      \<and> Crime_mes x = mes r \<and> Crime_ano x = ano r"
  show ?case
  proof (cases "find ?P (crime_tab st)")
    case (Some x)
    with Cons.prems have "insert_crimes rs d st = Inr st'" by simp
    from Cons.IH [OF this] show ?thesis .
  next
    case None
    with Cons.prems obtain st1 where
      ins: "insert_crime (mes r) (ano r) (registros r) (rmbh r) (cod_municipio r) ?t st = Inr st1"
      and rest: "insert_crimes rs d st1 = Inr st'"
      by (auto split: sum.splits)
    from ins obtain b t where bt: "rmbh r = Some b" "?t = Some t"
      by (auto simp: insert_crime_def split: option.splits)
    let ?x = "\<lparr>Crime_id = autoincrement (map Crime_id (crime_tab st)), Crime_mes = mes r,
               Crime_ano = ano r, Crime_registros = registros r, Crime_rmbh = b,
               Crime_municipio_id = cod_municipio r, Crime_tipo_crime_id = t\<rparr>"
    from ins bt have st1: "st1 = st\<lparr>crime_tab := crime_tab st @ [?x]\<rparr>"
      and new: "crime_key ?x \<notin> crime_key ` set (crime_tab st)"
      and fk: "cod_municipio r \<in> Municipio_cod_municipio ` set (municipio_tab st)"
              "t \<in> TipoCrime_id ` set (tipo_crime_tab st)"
      by (auto simp: insert_crime_def crime_key_def split: if_splits)
    from Cons.IH [OF rest] obtain ext where
      ext: "st' = st1\<lparr>crime_tab := crime_tab st1 @ ext\<rparr>"
        "distinct (map crime_key ext)"
        "crime_key ` set ext \<inter> crime_key ` set (crime_tab st1) = {}"
        "Crime_municipio_id ` set ext \<subseteq> Municipio_cod_municipio ` set (municipio_tab st1)"
        "Crime_tipo_crime_id ` set ext \<subseteq> TipoCrime_id ` set (tipo_crime_tab st1)"
      by blast
    show ?thesis
      using ext new fk unfolding st1 by (intro exI [of _ "?x # ext"]) auto
  qed
qed


lemma fast_path: "crime_tab st \<noteq> [] \<Longrightarrow> create_normalized_database df st = (st, Skipped)"
  by (simp add: create_normalized_database_def)

lemma load_again:
  "fst (create_normalized_database df (fst (create_normalized_database df st)))
     = fst (create_normalized_database df st)"
proof (cases "crime_tab st = []")
  case False
  then show ?thesis by (simp add: fast_path)
next
  case True
  let ?R = "unique (map risp df)"
  let ?M = "unique (map (\<lambda>r. (cod_municipio r, municipio r, risp r)) df)"
  let ?N = "unique (map natureza_padronizada df)"
  from insert_risps_result [of ?R st] obtain ext1 where
    s1: "insert_risps ?R st = Inr (st\<lparr>risp_tab := risp_tab st @ ext1\<rparr>)"
    and R: "set ?R \<subseteq> Risp_id ` set (risp_tab st @ ext1)"
    by blast
  let ?s1 = "st\<lparr>risp_tab := risp_tab st @ ext1\<rparr>"
  have R1: "insert_risps ?R ?s1 = Inr ?s1" using R by (intro insert_risps_noop) simp
  show ?thesis
  proof (cases "insert_municipios ?M ?s1")
    case (Inl e)
    with s1 True have "create_normalized_database df st = (?s1, Failed e)"
      by (simp add: create_normalized_database_def)
    moreover from R1 Inl True have "create_normalized_database df ?s1 = (?s1, Failed e)"
      by (simp add: create_normalized_database_def)
    ultimately show ?thesis by simp
  next
    case (Inr s2)
    from insert_municipios_result [OF Inr] obtain ext2 where
      s2: "s2 = ?s1\<lparr>municipio_tab := municipio_tab ?s1 @ ext2\<rparr>"
      and M: "fst ` set ?M \<subseteq> Municipio_cod_municipio ` set (municipio_tab ?s1 @ ext2)"
      by blast
    from insert_tipos_result [of ?N Map.empty s2] obtain ext3 where
      s3: "insert_tipos ?N Map.empty s2 =
          (s2\<lparr>tipo_crime_tab := tipo_crime_tab s2 @ ext3\<rparr>,
           Inr (\<lambda>n. if n \<in> set ?N
                     then map_option TipoCrime_id
                            (find (\<lambda>x. TipoCrime_nome x = n) (tipo_crime_tab s2 @ ext3))
                     else None))"
      and N: "set ?N \<subseteq> TipoCrime_nome ` set (tipo_crime_tab s2 @ ext3)"
      by blast
    define s3 where "s3 = s2\<lparr>tipo_crime_tab := tipo_crime_tab s2 @ ext3\<rparr>"
    define d where "d = (\<lambda>n. if n \<in> set ?N
                     then map_option TipoCrime_id
                            (find (\<lambda>x. TipoCrime_nome x = n) (tipo_crime_tab s3))
                     else None)"
    have tab3: "tipo_crime_tab s3 = tipo_crime_tab s2 @ ext3" by (simp add: s3_def)
    have s3': "insert_tipos ?N Map.empty s2 = (s3, Inr d)"
      unfolding d_def tab3 using s3 by (simp add: s3_def)
    have first: "create_normalized_database df st =
        (case insert_crimes df d s3 of Inl e \<Rightarrow> (s3, Failed e) | Inr s4 \<Rightarrow> (s4, Inserted))"
      using True s1 Inr s3' by (simp add: create_normalized_database_def)
    have c3: "crime_tab s3 = []" using True by (simp add: s3_def s2)
    have R3: "insert_risps ?R s3 = Inr s3"
      using R by (intro insert_risps_noop) (simp add: s3_def s2)
    have M3: "insert_municipios ?M s3 = Inr s3"
      using M by (intro insert_municipios_noop) (simp add: s3_def s2)
    have N3: "insert_tipos ?N Map.empty s3 = (s3, Inr d)"
      unfolding d_def using N by (intro insert_tipos_noop) (simp add: s3_def)
    have again: "create_normalized_database df s3 = create_normalized_database df st"
      unfolding first using c3 R3 M3 N3 by (simp add: create_normalized_database_def)
    show ?thesis
    proof (cases "insert_crimes df d s3")
      case (Inl e)
      with first have "fst (create_normalized_database df st) = s3" by simp
      with again show ?thesis by simp
    next
      case (Inr s4)
      with first have s4: "fst (create_normalized_database df st) = s4" by simp
      show ?thesis
      proof (cases "crime_tab s4 = []")
        case False
        with s4 show ?thesis by (simp add: fast_path)
      next
        case True
        from insert_crimes_result [OF Inr] obtain ext where
          "s4 = s3\<lparr>crime_tab := crime_tab s3 @ ext\<rparr>" by blast
        with True c3 have "s4 = s3" by simp
        with s4 again show ?thesis by simp
      qed
    qed
  qed
qed

text \<open>
  C1. Whatever the store and the cleaned data frame, a second call on the store that the
  first call left changes nothing: the store after it is the store before it, so the four
  tables keep their lengths; in particular for a first call on the empty store. A call on a
  store whose table \<open>crime\<close> holds a line returns at once, with the report that the insertion
  is skipped and the store as it was.
\<close>

theorem load_twice_idempotent:
  "fst (create_normalized_database df (fst (create_normalized_database df st)))
     = fst (create_normalized_database df st)
   \<and> (crime_tab st \<noteq> [] \<longrightarrow> create_normalized_database df st = (st, Skipped))
   \<and> (let st1 = fst (create_normalized_database df empty_store);
           st2 = fst (create_normalized_database df st1)
       in length (risp_tab st2) = length (risp_tab st1)
        \<and> length (municipio_tab st2) = length (municipio_tab st1)
        \<and> length (tipo_crime_tab st2) = length (tipo_crime_tab st1)
        \<and> length (crime_tab st2) = length (crime_tab st1)
        \<and> st2 = st1)"
  using load_again [of df st] load_again [of df empty_store] fast_path [of st df]
  by (simp add: Let_def)

theorem load_twice_idempotent_witness:
  "create_normalized_database
     [\<lparr>municipio = ''BETIM'', cod_municipio = ''0002'', natureza = ''Furto'',
       rmbh = Some True, registros = 7, mes = 5, ano = 2023, risp = 2,
       natureza_padronizada = ''FURTO''\<rparr>]
     empty_store
   = (\<lparr>risp_tab = [\<lparr>Risp_id = 2, Risp_descricao = ''RISP 2''\<rparr>],
       municipio_tab = [\<lparr>Municipio_cod_municipio = ''0002'', Municipio_nome = ''BETIM'',
                         Municipio_risp_id = 2\<rparr>],
       tipo_crime_tab = [\<lparr>TipoCrime_id = 1, TipoCrime_nome = ''FURTO''\<rparr>],
       crime_tab = [\<lparr>Crime_id = 1, Crime_mes = 5, Crime_ano = 2023, Crime_registros = 7,
                     Crime_rmbh = True, Crime_municipio_id = ''0002'',
                     Crime_tipo_crime_id = 1\<rparr>]\<rparr>,
      Inserted)
   \<and> create_normalized_database
     [\<lparr>municipio = ''BETIM'', cod_municipio = ''0002'', natureza = ''Furto'',
       rmbh = Some True, registros = 7, mes = 5, ano = 2023, risp = 2,
       natureza_padronizada = ''FURTO''\<rparr>]
     \<lparr>risp_tab = [\<lparr>Risp_id = 2, Risp_descricao = ''RISP 2''\<rparr>],
      municipio_tab = [\<lparr>Municipio_cod_municipio = ''0002'', Municipio_nome = ''BETIM'',
                        Municipio_risp_id = 2\<rparr>],
      tipo_crime_tab = [\<lparr>TipoCrime_id = 1, TipoCrime_nome = ''FURTO''\<rparr>],
      crime_tab = [\<lparr>Crime_id = 1, Crime_mes = 5, Crime_ano = 2023, Crime_registros = 7,
                    Crime_rmbh = True, Crime_municipio_id = ''0002'',
                    Crime_tipo_crime_id = 1\<rparr>]\<rparr>
   = (\<lparr>risp_tab = [\<lparr>Risp_id = 2, Risp_descricao = ''RISP 2''\<rparr>],
       municipio_tab = [\<lparr>Municipio_cod_municipio = ''0002'', Municipio_nome = ''BETIM'',
                         Municipio_risp_id = 2\<rparr>],
       tipo_crime_tab = [\<lparr>TipoCrime_id = 1, TipoCrime_nome = ''FURTO''\<rparr>],
       crime_tab = [\<lparr>Crime_id = 1, Crime_mes = 5, Crime_ano = 2023, Crime_registros = 7,
                     Crime_rmbh = True, Crime_municipio_id = ''0002'',
                     Crime_tipo_crime_id = 1\<rparr>]\<rparr>,
      Skipped)"
proof -
  have "crime_tab
     \<lparr>risp_tab = [\<lparr>Risp_id = 2, Risp_descricao = ''RISP 2''\<rparr>],
      municipio_tab = [\<lparr>Municipio_cod_municipio = ''0002'', Municipio_nome = ''BETIM'',
                        Municipio_risp_id = 2\<rparr>],
      tipo_crime_tab = [\<lparr>TipoCrime_id = 1, TipoCrime_nome = ''FURTO''\<rparr>],
      crime_tab = [\<lparr>Crime_id = 1, Crime_mes = 5, Crime_ano = 2023, Crime_registros = 7,
                    Crime_rmbh = True, Crime_municipio_id = ''0002'',
                    Crime_tipo_crime_id = 1\<rparr>]\<rparr> \<noteq> []"
    by simp
  moreover have "create_normalized_database
     [\<lparr>municipio = ''BETIM'', cod_municipio = ''0002'', natureza = ''Furto'',
       rmbh = Some True, registros = 7, mes = 5, ano = 2023, risp = 2,
       natureza_padronizada = ''FURTO''\<rparr>]
     empty_store
   = (\<lparr>risp_tab = [\<lparr>Risp_id = 2, Risp_descricao = ''RISP 2''\<rparr>],
       municipio_tab = [\<lparr>Municipio_cod_municipio = ''0002'', Municipio_nome = ''BETIM'',
                         Municipio_risp_id = 2\<rparr>],
       tipo_crime_tab = [\<lparr>TipoCrime_id = 1, TipoCrime_nome = ''FURTO''\<rparr>],
       crime_tab = [\<lparr>Crime_id = 1, Crime_mes = 5, Crime_ano = 2023, Crime_registros = 7,
                     Crime_rmbh = True, Crime_municipio_id = ''0002'',
                     Crime_tipo_crime_id = 1\<rparr>]\<rparr>,
      Inserted)"
    by (simp add: store_defs)
  ultimately show ?thesis
    using load_twice_idempotent
      [of "[\<lparr>municipio = ''BETIM'', cod_municipio = ''0002'', natureza = ''Furto'',
             rmbh = Some True, registros = 7, mes = 5, ano = 2023, risp = 2,
             natureza_padronizada = ''FURTO''\<rparr>]"
          "\<lparr>risp_tab = [\<lparr>Risp_id = 2, Risp_descricao = ''RISP 2''\<rparr>],
            municipio_tab = [\<lparr>Municipio_cod_municipio = ''0002'', Municipio_nome = ''BETIM'',
                              Municipio_risp_id = 2\<rparr>],
            tipo_crime_tab = [\<lparr>TipoCrime_id = 1, TipoCrime_nome = ''FURTO''\<rparr>],
            crime_tab = [\<lparr>Crime_id = 1, Crime_mes = 5, Crime_ano = 2023,
                          Crime_registros = 7, Crime_rmbh = True,
                          Crime_municipio_id = ''0002'', Crime_tipo_crime_id = 1\<rparr>]\<rparr>"]
    by blast
qed

lemma distinct_map_append_new:
  "distinct (map f xs) \<Longrightarrow> distinct (map f ext) \<Longrightarrow> f ` set ext \<subseteq> A - f ` set xs \<Longrightarrow>
   distinct (map f (xs @ ext))"
  by auto

lemma insert_municipios_error: "insert_municipios ms st = Inl e \<Longrightarrow> e = ForeignKeyViolation"
proof (induction ms arbitrary: st)
  case Nil
  then show ?case by simp
next
  case (Cons m ms)
  obtain c n k where m: "m = (c, n, k)" by (cases m)
  from Cons show ?case
    by (auto simp: m insert_municipio_def find_None_image split: option.splits sum.splits if_splits)
qed

lemma insert_crimes_error:
  "insert_crimes rs d st = Inl e \<Longrightarrow> e = NotNullViolation \<or> e = ForeignKeyViolation"
proof (induction rs arbitrary: st)
  case Nil
  then show ?case by simp
next
  case (Cons r rs)
  let ?t = "d (natureza_padronizada r)"
  let ?P = "\<lambda>x. Crime_municipio_id x = cod_municipio r \<and> Some (Crime_tipo_crime_id x) = ?t
                      \<and> Crime_mes x = mes r \<and> Crime_ano x = ano r"
  show ?case
  proof (cases "find ?P (crime_tab st)")
    case (Some x)
    with Cons show ?thesis by simp
  next
    case None
    show ?thesis
    proof (cases "insert_crime (mes r) (ano r) (registros r) (rmbh r) (cod_municipio r) ?t st")
      case (Inl e')
      with Cons.prems None have e: "e = e'" by simp
      have "e' \<noteq> UniqueViolation"
      proof
        assume "e' = UniqueViolation"
        with Inl obtain b t where "?t = Some t"
          "(cod_municipio r, t, mes r, ano r) \<in> crime_key ` set (crime_tab st)"
          by (auto simp: insert_crime_def split: option.splits if_splits)
        then obtain x where "x \<in> set (crime_tab st)" "?P x"
          by (auto simp: crime_key_def)
        with None show False by (auto simp: find_None_iff)
      qed
      moreover from Inl have "e' \<noteq> IntCastingNaNError" "e' \<noteq> AttributeError"
        by (auto simp: insert_crime_def split: option.splits if_splits)
      ultimately show ?thesis unfolding e by (cases e') auto
    next
      case (Inr st1)
      with Cons None show ?thesis by simp
    qed
  qed
qed

lemma loader_cases:
  obtains (skip) "crime_tab st \<noteq> []" "create_normalized_database df st = (st, Skipped)"
  | (fail2) ext1 e where "crime_tab st = []"
      "create_normalized_database df st = (st\<lparr>risp_tab := risp_tab st @ ext1\<rparr>, Failed e)"
      "e = ForeignKeyViolation"
      "Risp_id ` set ext1 \<subseteq> set (unique (map risp df)) - Risp_id ` set (risp_tab st)"
      "distinct (map Risp_id ext1)"
  | (step4) ext1 ext2 ext3 d s3 where "crime_tab st = []"
      "s3 = st\<lparr>risp_tab := risp_tab st @ ext1, municipio_tab := municipio_tab st @ ext2,
                tipo_crime_tab := tipo_crime_tab st @ ext3\<rparr>"
      "create_normalized_database df st =
        (case insert_crimes df d s3 of Inl e \<Rightarrow> (s3, Failed e) | Inr s4 \<Rightarrow> (s4, Inserted))"
      "Risp_id ` set ext1 \<subseteq> set (unique (map risp df)) - Risp_id ` set (risp_tab st)"
      "distinct (map Risp_id ext1)"
      "Municipio_cod_municipio ` set ext2
         \<subseteq> fst ` set (unique (map (\<lambda>r. (cod_municipio r, municipio r, risp r)) df))
           - Municipio_cod_municipio ` set (municipio_tab st)"
      "distinct (map Municipio_cod_municipio ext2)"
      "Municipio_risp_id ` set ext2 \<subseteq> Risp_id ` set (risp_tab st @ ext1)"
      "TipoCrime_nome ` set ext3
         \<subseteq> set (unique (map natureza_padronizada df)) - TipoCrime_nome ` set (tipo_crime_tab st)"
      "distinct (map TipoCrime_nome ext3)"
proof (cases "crime_tab st = []")
  case False
  then show ?thesis using skip by (simp add: fast_path)
next
  case True
  let ?R = "unique (map risp df)"
  let ?M = "unique (map (\<lambda>r. (cod_municipio r, municipio r, risp r)) df)"
  let ?N = "unique (map natureza_padronizada df)"
  from insert_risps_result [of ?R st] obtain ext1 where
    s1: "insert_risps ?R st = Inr (st\<lparr>risp_tab := risp_tab st @ ext1\<rparr>)"
    and R: "Risp_id ` set ext1 \<subseteq> set ?R - Risp_id ` set (risp_tab st)"
           "distinct (map Risp_id ext1)"
    by blast
  let ?s1 = "st\<lparr>risp_tab := risp_tab st @ ext1\<rparr>"
  show ?thesis
  proof (cases "insert_municipios ?M ?s1")
    case (Inl e)
    with s1 True have "create_normalized_database df st = (?s1, Failed e)"
      by (simp add: create_normalized_database_def)
    with True R insert_municipios_error [OF Inl] show ?thesis using fail2 by blast
  next
    case (Inr s2)
    from insert_municipios_result [OF Inr] obtain ext2 where
      s2: "s2 = ?s1\<lparr>municipio_tab := municipio_tab ?s1 @ ext2\<rparr>"
      and M: "Municipio_cod_municipio ` set ext2
            \<subseteq> fst ` set ?M - Municipio_cod_municipio ` set (municipio_tab ?s1)"
        "distinct (map Municipio_cod_municipio ext2)"
        "Municipio_risp_id ` set ext2 \<subseteq> Risp_id ` set (risp_tab ?s1)"
      by blast
    from insert_tipos_result [of ?N Map.empty s2] obtain ext3 d where
      s3: "insert_tipos ?N Map.empty s2 = (s2\<lparr>tipo_crime_tab := tipo_crime_tab s2 @ ext3\<rparr>, Inr d)"
      and N: "TipoCrime_nome ` set ext3 \<subseteq> set ?N - TipoCrime_nome ` set (tipo_crime_tab s2)"
        "distinct (map TipoCrime_nome ext3)"
      by blast
    let ?s3 = "st\<lparr>risp_tab := risp_tab st @ ext1, municipio_tab := municipio_tab st @ ext2,
                tipo_crime_tab := tipo_crime_tab st @ ext3\<rparr>"
    have eq3: "s2\<lparr>tipo_crime_tab := tipo_crime_tab s2 @ ext3\<rparr> = ?s3" by (simp add: s2)
    have "create_normalized_database df st =
        (case insert_crimes df d ?s3 of Inl e \<Rightarrow> (?s3, Failed e) | Inr s4 \<Rightarrow> (s4, Inserted))"
      using True s1 Inr s3 unfolding eq3 by (simp add: create_normalized_database_def)
    then show ?thesis
      using True R M N by (intro step4 [where ?s3.0 = ?s3 and d = d]) (simp_all add: s2)
  qed
qed

lemma unique_keys_load:
  assumes "unique_keys st"
  shows "unique_keys (fst (create_normalized_database df st))"
proof (cases rule: loader_cases [where st = st and df = df])
  case skip
  with assms show ?thesis by simp
next
  case (fail2 ext1 e)
  with assms show ?thesis by (auto simp: unique_keys_def)
next
  case (step4 ext1 ext2 ext3 d s3)
  have u3: "unique_keys s3"
    using assms step4(4-10) unfolding step4(2) by (auto simp: unique_keys_def)
  show ?thesis
  proof (cases "insert_crimes df d s3")
    case (Inl e)
    with step4(3) u3 show ?thesis by simp
  next
    case (Inr s4)
    from insert_crimes_result [OF Inr] obtain ext where
      "s4 = s3\<lparr>crime_tab := crime_tab s3 @ ext\<rparr>" "distinct (map crime_key ext)"
      "crime_key ` set ext \<inter> crime_key ` set (crime_tab s3) = {}"
      by blast
    with u3 have "unique_keys s4" by (auto simp: unique_keys_def)
    with step4(3) Inr show ?thesis by simp
  qed
qed

lemma unique_keys_load_all: "unique_keys st \<Longrightarrow> unique_keys (load_all dfs st)"
  by (induction dfs arbitrary: st) (auto simp: unique_keys_load)

lemma never_unique_violation: "snd (create_normalized_database df st) \<noteq> Failed UniqueViolation"
proof (cases rule: loader_cases [where st = st and df = df])
  case skip
  then show ?thesis by simp
next
  case (fail2 ext1 e)
  then show ?thesis by simp
next
  case (step4 ext1 ext2 ext3 d s3)
  show ?thesis
  proof (cases "insert_crimes df d s3")
    case (Inl e)
    with step4(3) insert_crimes_error [OF Inl] show ?thesis by auto
  next
    case (Inr s4)
    with step4(3) show ?thesis by simp
  qed
qed


text \<open>
  C2. A call of the loader on a store without two lines of the same natural key leaves such
  a store, whatever the data frame and however the call ends; so does any sequence of calls
  that starts on the empty store. The keys are \<open>risp.id\<close>, \<open>municipio.cod_municipio\<close>,
  \<open>tipo_crime.nome\<close> and \<open>(municipio_id, tipo_crime_id, mes, ano)\<close> of \<open>crime\<close>. The checks of
  the loader come before the constraints of the store: no call ends on a violated unique
  constraint. The data frame of two identical rows of the claim, with any \<open>rmbh\<close> that is
  present, gives one line in each of the four tables.
\<close>

theorem natural_keys_unique:
  "(unique_keys st \<longrightarrow> unique_keys (fst (create_normalized_database df st)))
   \<and> unique_keys (load_all dfs empty_store)
   \<and> snd (create_normalized_database df st) \<noteq> Failed UniqueViolation
   \<and> create_normalized_database
        [\<lparr>municipio = ''BELO HORIZONTE'', cod_municipio = ''0001'', natureza = nt,
          rmbh = Some b, registros = 10, mes = 1, ano = 2023, risp = 1,
          natureza_padronizada = ''ROUBO''\<rparr>,
         \<lparr>municipio = ''BELO HORIZONTE'', cod_municipio = ''0001'', natureza = nt,
          rmbh = Some b, registros = 10, mes = 1, ano = 2023, risp = 1,
          natureza_padronizada = ''ROUBO''\<rparr>]
        empty_store
      = (\<lparr>risp_tab = [\<lparr>Risp_id = 1, Risp_descricao = ''RISP 1''\<rparr>],
          municipio_tab = [\<lparr>Municipio_cod_municipio = ''0001'',
                            Municipio_nome = ''BELO HORIZONTE'', Municipio_risp_id = 1\<rparr>],
          tipo_crime_tab = [\<lparr>TipoCrime_id = 1, TipoCrime_nome = ''ROUBO''\<rparr>],
          crime_tab = [\<lparr>Crime_id = 1, Crime_mes = 1, Crime_ano = 2023, Crime_registros = 10,
                        Crime_rmbh = b, Crime_municipio_id = ''0001'',
                        Crime_tipo_crime_id = 1\<rparr>]\<rparr>,
         Inserted)"
proof -
  have "unique_keys empty_store" by (simp add: unique_keys_def empty_store_def)
  then have "unique_keys (load_all dfs empty_store)" by (rule unique_keys_load_all)
  moreover have "create_normalized_database
        [\<lparr>municipio = ''BELO HORIZONTE'', cod_municipio = ''0001'', natureza = nt,
          rmbh = Some b, registros = 10, mes = 1, ano = 2023, risp = 1,
          natureza_padronizada = ''ROUBO''\<rparr>,
         \<lparr>municipio = ''BELO HORIZONTE'', cod_municipio = ''0001'', natureza = nt,
          rmbh = Some b, registros = 10, mes = 1, ano = 2023, risp = 1,
          natureza_padronizada = ''ROUBO''\<rparr>]
        empty_store
      = (\<lparr>risp_tab = [\<lparr>Risp_id = 1, Risp_descricao = ''RISP 1''\<rparr>],
          municipio_tab = [\<lparr>Municipio_cod_municipio = ''0001'',
                            Municipio_nome = ''BELO HORIZONTE'', Municipio_risp_id = 1\<rparr>],
          tipo_crime_tab = [\<lparr>TipoCrime_id = 1, TipoCrime_nome = ''ROUBO''\<rparr>],
          crime_tab = [\<lparr>Crime_id = 1, Crime_mes = 1, Crime_ano = 2023, Crime_registros = 10,
                        Crime_rmbh = b, Crime_municipio_id = ''0001'',
                        Crime_tipo_crime_id = 1\<rparr>]\<rparr>,
         Inserted)"
    by (simp add: store_defs)
  ultimately show ?thesis
    using unique_keys_load [of st df] never_unique_violation [of df st] by blast
qed

theorem natural_keys_unique_witness:
  "unique_keys
     \<lparr>risp_tab = [\<lparr>Risp_id = 2, Risp_descricao = ''RISP 2''\<rparr>],
       municipio_tab = [\<lparr>Municipio_cod_municipio = ''0002'', Municipio_nome = ''BETIM'',
                         Municipio_risp_id = 2\<rparr>],
       tipo_crime_tab = [], crime_tab = []\<rparr>
   \<and> unique_keys (fst (create_normalized_database
     [\<lparr>municipio = ''BETIM'', cod_municipio = ''0002'', natureza = ''Furto'',
       rmbh = Some True, registros = 7, mes = 5, ano = 2023, risp = 2,
       natureza_padronizada = ''FURTO''\<rparr>,
      \<lparr>municipio = ''BETIM'', cod_municipio = ''0003'', natureza = ''Furto'',
       rmbh = Some True, registros = 4, mes = 5, ano = 2023, risp = 3,
       natureza_padronizada = ''FURTO''\<rparr>,
      \<lparr>municipio = ''BETIM'', cod_municipio = ''0002'', natureza = ''Furto'',
       rmbh = Some True, registros = 9, mes = 5, ano = 2023, risp = 2,
       natureza_padronizada = ''FURTO''\<rparr>]
     \<lparr>risp_tab = [\<lparr>Risp_id = 2, Risp_descricao = ''RISP 2''\<rparr>],
       municipio_tab = [\<lparr>Municipio_cod_municipio = ''0002'', Municipio_nome = ''BETIM'',
                         Municipio_risp_id = 2\<rparr>],
       tipo_crime_tab = [], crime_tab = []\<rparr>))"
proof -
  have "unique_keys
     \<lparr>risp_tab = [\<lparr>Risp_id = 2, Risp_descricao = ''RISP 2''\<rparr>],
       municipio_tab = [\<lparr>Municipio_cod_municipio = ''0002'', Municipio_nome = ''BETIM'',
                         Municipio_risp_id = 2\<rparr>],
       tipo_crime_tab = [], crime_tab = []\<rparr>"
    by (simp add: unique_keys_def)
  with natural_keys_unique
    [of "\<lparr>risp_tab = [\<lparr>Risp_id = 2, Risp_descricao = ''RISP 2''\<rparr>],
       municipio_tab = [\<lparr>Municipio_cod_municipio = ''0002'', Municipio_nome = ''BETIM'',
                         Municipio_risp_id = 2\<rparr>],
       tipo_crime_tab = [], crime_tab = []\<rparr>"
        "[\<lparr>municipio = ''BETIM'', cod_municipio = ''0002'', natureza = ''Furto'',
           rmbh = Some True, registros = 7, mes = 5, ano = 2023, risp = 2,
           natureza_padronizada = ''FURTO''\<rparr>,
      \<lparr>municipio = ''BETIM'', cod_municipio = ''0003'', natureza = ''Furto'',
       rmbh = Some True, registros = 4, mes = 5, ano = 2023, risp = 3,
       natureza_padronizada = ''FURTO''\<rparr>,
      \<lparr>municipio = ''BETIM'', cod_municipio = ''0002'', natureza = ''Furto'',
       rmbh = Some True, registros = 9, mes = 5, ano = 2023, risp = 2,
       natureza_padronizada = ''FURTO''\<rparr>]"]
  show ?thesis by blast
qed









lemma insert_crimes_append:
  "insert_crimes (xs @ ys) d st =
     (case insert_crimes xs d st of Inl e \<Rightarrow> Inl e | Inr st' \<Rightarrow> insert_crimes ys d st')"
  by (induction xs arbitrary: st) (auto simp: Let_def split: option.splits sum.splits)

lemma insert_municipios_append:
  "insert_municipios (xs @ ys) st =
     (case insert_municipios xs st of Inl e \<Rightarrow> Inl e | Inr st' \<Rightarrow> insert_municipios ys st')"
  by (induction xs arbitrary: st) (auto split: option.splits sum.splits)

lemma insert_crimes_head_present:
  assumes "insert_crimes (r # rs) d st = Inr st'"
  shows "\<exists>x\<in>set (crime_tab st'). Crime_municipio_id x = cod_municipio r
            \<and> Some (Crime_tipo_crime_id x) = d (natureza_padronizada r)
            \<and> Crime_mes x = mes r \<and> Crime_ano x = ano r"
proof -
  let ?P = "\<lambda>x. Crime_municipio_id x = cod_municipio r
            \<and> Some (Crime_tipo_crime_id x) = d (natureza_padronizada r)
            \<and> Crime_mes x = mes r \<and> Crime_ano x = ano r"
  have "\<exists>st1. insert_crimes rs d st1 = Inr st' \<and> (\<exists>x\<in>set (crime_tab st1). ?P x)"
  proof (cases "find ?P (crime_tab st)")
    case (Some x)
    then have "x \<in> set (crime_tab st)" "?P x" by (auto simp: find_Some_iff)
    moreover from assms Some have "insert_crimes rs d st = Inr st'" by simp
    ultimately show ?thesis by blast
  next
    case None
    with assms obtain st1 where
      ins: "insert_crime (mes r) (ano r) (registros r) (rmbh r) (cod_municipio r)
              (d (natureza_padronizada r)) st = Inr st1"
      and rest: "insert_crimes rs d st1 = Inr st'"
      by (auto split: sum.splits)
    from ins have "\<exists>x\<in>set (crime_tab st1). ?P x"
      by (auto simp: insert_crime_def split: option.splits if_splits)
    with rest show ?thesis by blast
  qed
  then obtain st1 x where "insert_crimes rs d st1 = Inr st'" "x \<in> set (crime_tab st1)" "?P x"
    by blast
  moreover from insert_crimes_result [OF this(1)] obtain ext where
    "st' = st1\<lparr>crime_tab := crime_tab st1 @ ext\<rparr>" by blast
  ultimately show ?thesis by auto
qed

lemma crimes_duplicate_skipped:
  assumes "cod_municipio r1 = cod_municipio r2"
    "d (natureza_padronizada r1) = d (natureza_padronizada r2)" "mes r1 = mes r2" "ano r1 = ano r2"
  shows "insert_crimes (xs @ r1 # ys @ r2 # zs) d st = insert_crimes (xs @ r1 # ys @ zs) d st"
proof -
  have "insert_crimes (r2 # zs) d st' = insert_crimes zs d st'"
    if "insert_crimes (r1 # ys) d st0 = Inr st'" for st0 st'
  proof -
    from insert_crimes_head_present [OF that] assms
    have "find (\<lambda>x. Crime_municipio_id x = cod_municipio r2
            \<and> Some (Crime_tipo_crime_id x) = d (natureza_padronizada r2)
            \<and> Crime_mes x = mes r2 \<and> Crime_ano x = ano r2) (crime_tab st') \<noteq> None"
      by (auto simp: find_None_iff)
    then show ?thesis by auto
  qed
  then have "insert_crimes ((r1 # ys) @ r2 # zs) d st0 = insert_crimes ((r1 # ys) @ zs) d st0"
    for st0
    unfolding insert_crimes_append [of "r1 # ys"] by (simp split: sum.splits)
  then show ?thesis
    unfolding insert_crimes_append [of xs] by (simp split: sum.splits)
qed

lemma insert_municipios_head_present:
  assumes "insert_municipios ((c, n, k) # ms) st = Inr st'"
  shows "c \<in> Municipio_cod_municipio ` set (municipio_tab st')"
  using insert_municipios_result [OF assms] by auto

lemma municipios_duplicate_skipped:
  "insert_municipios (xs @ (c, n1, k1) # ys @ (c, n2, k2) # zs) st
     = insert_municipios (xs @ (c, n1, k1) # ys @ zs) st"
proof -
  have "insert_municipios ((c, n2, k2) # zs) st' = insert_municipios zs st'"
    if "insert_municipios ((c, n1, k1) # ys) st0 = Inr st'" for st0 st'
  proof -
    from insert_municipios_result [OF that]
    have "c \<in> Municipio_cod_municipio ` set (municipio_tab st')" by auto
    then have "find (\<lambda>x. Municipio_cod_municipio x = c) (municipio_tab st') \<noteq> None"
      by (simp add: find_None_image)
    then show ?thesis by auto
  qed
  then have "insert_municipios (((c, n1, k1) # ys) @ (c, n2, k2) # zs) st0
      = insert_municipios (((c, n1, k1) # ys) @ zs) st0" for st0
    unfolding insert_municipios_append [of "(c, n1, k1) # ys"] by (simp split: sum.splits)
  then show ?thesis
    unfolding insert_municipios_append [of xs] by (simp split: sum.splits)
qed


lemma crimes_first_wins:
  "insert_crimes rs d st = Inr st' \<Longrightarrow> x \<in> set (crime_tab st') \<Longrightarrow>
   x \<in> set (crime_tab st)
   \<or> (crime_key x \<notin> crime_key ` set (crime_tab st)
      \<and> (\<exists>r. find (\<lambda>r. cod_municipio r = Crime_municipio_id x
                       \<and> d (natureza_padronizada r) = Some (Crime_tipo_crime_id x)
                       \<and> mes r = Crime_mes x \<and> ano r = Crime_ano x) rs = Some r
             \<and> Crime_registros x = registros r \<and> rmbh r = Some (Crime_rmbh x)))"
proof (induction rs arbitrary: st)
  case Nil
  then show ?case by simp
next
  case (Cons r rs)
  let ?P = "\<lambda>y. Crime_municipio_id y = cod_municipio r
                \<and> Some (Crime_tipo_crime_id y) = d (natureza_padronizada r)
                \<and> Crime_mes y = mes r \<and> Crime_ano y = ano r"
  let ?m = "\<lambda>r. cod_municipio r = Crime_municipio_id x
                       \<and> d (natureza_padronizada r) = Some (Crime_tipo_crime_id x)
                       \<and> mes r = Crime_mes x \<and> ano r = Crime_ano x"
  show ?case
  proof (cases "find ?P (crime_tab st)")
    case (Some y)
    then have y: "y \<in> set (crime_tab st)" "?P y" by (auto simp: find_Some_iff)
    from Cons.prems(1) Some have "insert_crimes rs d st = Inr st'" by simp
    from Cons.IH [OF this Cons.prems(2)] show ?thesis
    proof
      assume "x \<in> set (crime_tab st)"
      then show ?thesis ..
    next
      assume new: "crime_key x \<notin> crime_key ` set (crime_tab st)
        \<and> (\<exists>r. find ?m rs = Some r \<and> Crime_registros x = registros r
                \<and> rmbh r = Some (Crime_rmbh x))"
      have "\<not> ?m r"
      proof
        assume "?m r"
        with y(2) have "crime_key y = crime_key x" by (simp add: crime_key_def)
        with y(1) new show False by (metis imageI)
      qed
      then have "find ?m (r # rs) = find ?m rs" by auto
      with new show ?thesis by metis
    qed
  next
    case None
    with Cons.prems(1) obtain st1 where
      ins: "insert_crime (mes r) (ano r) (registros r) (rmbh r) (cod_municipio r)
              (d (natureza_padronizada r)) st = Inr st1"
      and rest: "insert_crimes rs d st1 = Inr st'"
      by (auto split: sum.splits)
    from ins obtain b t where bt: "rmbh r = Some b" "d (natureza_padronizada r) = Some t"
      by (auto simp: insert_crime_def split: option.splits)
    let ?x0 = "\<lparr>Crime_id = autoincrement (map Crime_id (crime_tab st)), Crime_mes = mes r,
               Crime_ano = ano r, Crime_registros = registros r, Crime_rmbh = b,
               Crime_municipio_id = cod_municipio r, Crime_tipo_crime_id = t\<rparr>"
    from ins bt have st1: "crime_tab st1 = crime_tab st @ [?x0]"
      and fresh: "crime_key ?x0 \<notin> crime_key ` set (crime_tab st)"
      by (auto simp: insert_crime_def crime_key_def split: if_splits)
    from Cons.IH [OF rest Cons.prems(2)] show ?thesis
    proof
      assume "x \<in> set (crime_tab st1)"
      then consider "x \<in> set (crime_tab st)" | "x = ?x0" by (auto simp: st1)
      then show ?thesis
      proof cases
        case 1
        then show ?thesis ..
      next
        case 2
        with fresh bt show ?thesis by simp
      qed
    next
      assume new: "crime_key x \<notin> crime_key ` set (crime_tab st1)
        \<and> (\<exists>r. find ?m rs = Some r \<and> Crime_registros x = registros r
                \<and> rmbh r = Some (Crime_rmbh x))"
      have "\<not> ?m r"
      proof
        assume "?m r"
        with bt have "crime_key ?x0 = crime_key x" by (simp add: crime_key_def)
        with new show False by (simp add: st1)
      qed
      then have "find ?m (r # rs) = find ?m rs" by auto
      moreover from new have "crime_key x \<notin> crime_key ` set (crime_tab st)"
        by (simp add: st1)
      ultimately show ?thesis using new by metis
    qed
  qed
qed

lemma municipios_first_wins:
  "insert_municipios ms st = Inr st' \<Longrightarrow> x \<in> set (municipio_tab st') \<Longrightarrow>
   x \<in> set (municipio_tab st)
   \<or> (Municipio_cod_municipio x \<notin> Municipio_cod_municipio ` set (municipio_tab st)
      \<and> find (\<lambda>m. fst m = Municipio_cod_municipio x) ms
          = Some (Municipio_cod_municipio x, Municipio_nome x, Municipio_risp_id x))"
proof (induction ms arbitrary: st)
  case Nil
  then show ?case by simp
next
  case (Cons m ms)
  obtain c n k where m: "m = (c, n, k)" by (cases m)
  show ?case
  proof (cases "find (\<lambda>y. Municipio_cod_municipio y = c) (municipio_tab st)")
    case (Some y)
    then have c: "c \<in> Municipio_cod_municipio ` set (municipio_tab st)" by (rule find_Some_image)
    from Cons.prems(1) Some have "insert_municipios ms st = Inr st'" by (simp add: m)
    from Cons.IH [OF this Cons.prems(2)] show ?thesis
    proof
      assume "x \<in> set (municipio_tab st)"
      then show ?thesis ..
    next
      assume new: "Municipio_cod_municipio x \<notin> Municipio_cod_municipio ` set (municipio_tab st)
        \<and> find (\<lambda>m. fst m = Municipio_cod_municipio x) ms
            = Some (Municipio_cod_municipio x, Municipio_nome x, Municipio_risp_id x)"
      with c have "c \<noteq> Municipio_cod_municipio x" by blast
      with new show ?thesis by (simp add: m)
    qed
  next
    case None
    then have new: "c \<notin> Municipio_cod_municipio ` set (municipio_tab st)"
      by (simp add: find_None_image)
    let ?x0 = "\<lparr>Municipio_cod_municipio = c, Municipio_nome = n, Municipio_risp_id = k\<rparr>"
    let ?st = "st\<lparr>municipio_tab := municipio_tab st @ [?x0]\<rparr>"
    from Cons.prems(1) None new have rest: "insert_municipios ms ?st = Inr st'"
      by (auto simp: m insert_municipio_def split: if_splits)
    from Cons.IH [OF rest Cons.prems(2)] show ?thesis
    proof
      assume "x \<in> set (municipio_tab ?st)"
      then consider "x \<in> set (municipio_tab st)" | "x = ?x0" by auto
      then show ?thesis
      proof cases
        case 1
        then show ?thesis ..
      next
        case 2
        with new show ?thesis by (simp add: m)
      qed
    next
      assume n2: "Municipio_cod_municipio x \<notin> Municipio_cod_municipio ` set (municipio_tab ?st)
        \<and> find (\<lambda>m. fst m = Municipio_cod_municipio x) ms
            = Some (Municipio_cod_municipio x, Municipio_nome x, Municipio_risp_id x)"
      then have "c \<noteq> Municipio_cod_municipio x" by force
      with n2 show ?thesis by (simp add: m)
    qed
  qed
qed

text \<open>
  C10. The two existence checks look at the key only. In the loop over the rows, a row whose
  \<open>(municipio_id, tipo_crime_id, mes, ano)\<close> is that of an earlier row changes nothing, whatever
  its \<open>registros\<close> and \<open>rmbh\<close> are: the loop gives the same result, error or store, as without
  it. The same holds in the loop over the municipalities for a line whose \<open>cod_municipio\<close> is
  that of an earlier line, whatever its name and region are. A \<open>crime\<close> line that the loop
  wrote carries the \<open>registros\<close> and \<open>rmbh\<close> of the first row of the data frame with its key,
  and a \<open>municipio\<close> line that the loop wrote carries the name and the region of the first
  line with its code. From the empty store, two rows of one key and one code in two regions
  leave one \<open>crime\<close> line and one \<open>municipio\<close> line, with the values of the first row, and the
  call ends without error.
\<close>

theorem first_encountered_row_wins:
  "(cod_municipio r1 = cod_municipio r2
      \<and> d (natureza_padronizada r1) = d (natureza_padronizada r2)
      \<and> mes r1 = mes r2 \<and> ano r1 = ano r2 \<longrightarrow>
      insert_crimes (xs @ r1 # ys @ r2 # zs) d st = insert_crimes (xs @ r1 # ys @ zs) d st)
   \<and> insert_municipios (ms1 @ (c, n1, k1) # ms2 @ (c, n2, k2) # ms3) st
       = insert_municipios (ms1 @ (c, n1, k1) # ms2 @ ms3) st
   \<and> (insert_crimes rs d st = Inr st' \<and> x \<in> set (crime_tab st') \<and> x \<notin> set (crime_tab st)
        \<longrightarrow> (\<exists>r. find (\<lambda>r. cod_municipio r = Crime_municipio_id x
                       \<and> d (natureza_padronizada r) = Some (Crime_tipo_crime_id x)
                       \<and> mes r = Crime_mes x \<and> ano r = Crime_ano x) rs = Some r
                 \<and> Crime_registros x = registros r \<and> rmbh r = Some (Crime_rmbh x)))
   \<and> (insert_municipios ms st = Inr st'' \<and> y \<in> set (municipio_tab st'')
         \<and> y \<notin> set (municipio_tab st)
        \<longrightarrow> find (\<lambda>m. fst m = Municipio_cod_municipio y) ms
              = Some (Municipio_cod_municipio y, Municipio_nome y, Municipio_risp_id y))
   \<and> create_normalized_database
        [\<lparr>municipio = n1, cod_municipio = ''0001'', natureza = nt1, rmbh = Some b1,
          registros = g1, mes = 1, ano = 2023, risp = 1,
          natureza_padronizada = ''ROUBO''\<rparr>,
         \<lparr>municipio = n2, cod_municipio = ''0001'', natureza = nt2, rmbh = rb2,
          registros = g2, mes = 1, ano = 2023, risp = 2,
          natureza_padronizada = ''ROUBO''\<rparr>]
        empty_store
      = (\<lparr>risp_tab = [\<lparr>Risp_id = 1, Risp_descricao = ''RISP 1''\<rparr>,
                      \<lparr>Risp_id = 2, Risp_descricao = ''RISP 2''\<rparr>],
          municipio_tab = [\<lparr>Municipio_cod_municipio = ''0001'', Municipio_nome = n1,
                            Municipio_risp_id = 1\<rparr>],
          tipo_crime_tab = [\<lparr>TipoCrime_id = 1, TipoCrime_nome = ''ROUBO''\<rparr>],
          crime_tab = [\<lparr>Crime_id = 1, Crime_mes = 1, Crime_ano = 2023, Crime_registros = g1,
                        Crime_rmbh = b1, Crime_municipio_id = ''0001'',
                        Crime_tipo_crime_id = 1\<rparr>]\<rparr>,
         Inserted)"
proof -
  have "create_normalized_database
        [\<lparr>municipio = n1, cod_municipio = ''0001'', natureza = nt1, rmbh = Some b1,
          registros = g1, mes = 1, ano = 2023, risp = 1,
          natureza_padronizada = ''ROUBO''\<rparr>,
         \<lparr>municipio = n2, cod_municipio = ''0001'', natureza = nt2, rmbh = rb2,
          registros = g2, mes = 1, ano = 2023, risp = 2,
          natureza_padronizada = ''ROUBO''\<rparr>]
        empty_store
      = (\<lparr>risp_tab = [\<lparr>Risp_id = 1, Risp_descricao = ''RISP 1''\<rparr>,
                      \<lparr>Risp_id = 2, Risp_descricao = ''RISP 2''\<rparr>],
          municipio_tab = [\<lparr>Municipio_cod_municipio = ''0001'', Municipio_nome = n1,
                            Municipio_risp_id = 1\<rparr>],
          tipo_crime_tab = [\<lparr>TipoCrime_id = 1, TipoCrime_nome = ''ROUBO''\<rparr>],
          crime_tab = [\<lparr>Crime_id = 1, Crime_mes = 1, Crime_ano = 2023, Crime_registros = g1,
                        Crime_rmbh = b1, Crime_municipio_id = ''0001'',
                        Crime_tipo_crime_id = 1\<rparr>]\<rparr>,
         Inserted)"
    by (simp add: store_defs)
  then show ?thesis
    using crimes_duplicate_skipped [of r1 r2 d xs ys zs st]
      municipios_duplicate_skipped [of ms1 c n1 k1 ms2 n2 k2 ms3 st]
      crimes_first_wins [of rs d st st' x] municipios_first_wins [of ms st st'' y]
    by blast
qed

theorem first_encountered_row_wins_witness:
  "insert_crimes
     [\<lparr>municipio = ''BETIM'', cod_municipio = ''0002'', natureza = ''Furto'',
       rmbh = Some True, registros = 7, mes = 5, ano = 2023, risp = 2,
       natureza_padronizada = ''FURTO''\<rparr>,
      \<lparr>municipio = ''BETIM'', cod_municipio = ''0002'', natureza = ''Furto'', rmbh = None,
       registros = 9, mes = 5, ano = 2023, risp = 2, natureza_padronizada = ''FURTO''\<rparr>]
     [''FURTO'' \<mapsto> 1]
     \<lparr>risp_tab = [\<lparr>Risp_id = 2, Risp_descricao = ''RISP 2''\<rparr>],
         municipio_tab = [\<lparr>Municipio_cod_municipio = ''0002'', Municipio_nome = ''BETIM'',
                           Municipio_risp_id = 2\<rparr>],
         tipo_crime_tab = [\<lparr>TipoCrime_id = 1, TipoCrime_nome = ''FURTO''\<rparr>],
         crime_tab = []\<rparr>
   = insert_crimes
     [\<lparr>municipio = ''BETIM'', cod_municipio = ''0002'', natureza = ''Furto'',
       rmbh = Some True, registros = 7, mes = 5, ano = 2023, risp = 2,
       natureza_padronizada = ''FURTO''\<rparr>]
     [''FURTO'' \<mapsto> 1]
     \<lparr>risp_tab = [\<lparr>Risp_id = 2, Risp_descricao = ''RISP 2''\<rparr>],
         municipio_tab = [\<lparr>Municipio_cod_municipio = ''0002'', Municipio_nome = ''BETIM'',
                           Municipio_risp_id = 2\<rparr>],
         tipo_crime_tab = [\<lparr>TipoCrime_id = 1, TipoCrime_nome = ''FURTO''\<rparr>],
         crime_tab = []\<rparr>
   \<and> insert_crimes
     [\<lparr>municipio = ''BETIM'', cod_municipio = ''0002'', natureza = ''Furto'',
       rmbh = Some True, registros = 7, mes = 5, ano = 2023, risp = 2,
       natureza_padronizada = ''FURTO''\<rparr>,
      \<lparr>municipio = ''BETIM'', cod_municipio = ''0002'', natureza = ''Furto'', rmbh = None,
       registros = 9, mes = 5, ano = 2023, risp = 2, natureza_padronizada = ''FURTO''\<rparr>]
     [''FURTO'' \<mapsto> 1]
     \<lparr>risp_tab = [\<lparr>Risp_id = 2, Risp_descricao = ''RISP 2''\<rparr>],
         municipio_tab = [\<lparr>Municipio_cod_municipio = ''0002'', Municipio_nome = ''BETIM'',
                           Municipio_risp_id = 2\<rparr>],
         tipo_crime_tab = [\<lparr>TipoCrime_id = 1, TipoCrime_nome = ''FURTO''\<rparr>],
         crime_tab = []\<rparr>
   = Inr \<lparr>risp_tab = [\<lparr>Risp_id = 2, Risp_descricao = ''RISP 2''\<rparr>],
         municipio_tab = [\<lparr>Municipio_cod_municipio = ''0002'', Municipio_nome = ''BETIM'',
                           Municipio_risp_id = 2\<rparr>],
         tipo_crime_tab = [\<lparr>TipoCrime_id = 1, TipoCrime_nome = ''FURTO''\<rparr>],
         crime_tab = [\<lparr>Crime_id = 1, Crime_mes = 5, Crime_ano = 2023, Crime_registros = 7,
                       Crime_rmbh = True, Crime_municipio_id = ''0002'',
                       Crime_tipo_crime_id = 1\<rparr>]\<rparr>"
  using first_encountered_row_wins
    [where ?r1.0 = "\<lparr>municipio = ''BETIM'', cod_municipio = ''0002'',
                     natureza = ''Furto'', rmbh = Some True, registros = 7, mes = 5, ano = 2023,
                     risp = 2, natureza_padronizada = ''FURTO''\<rparr>"
       and ?r2.0 = "\<lparr>municipio = ''BETIM'', cod_municipio = ''0002'',
                     natureza = ''Furto'', rmbh = None, registros = 9, mes = 5, ano = 2023,
                     risp = 2, natureza_padronizada = ''FURTO''\<rparr>"
       and d = "[''FURTO'' \<mapsto> 1]" and xs = "[]" and ys = "[]" and zs = "[]"
       and st = "\<lparr>risp_tab = [\<lparr>Risp_id = 2, Risp_descricao = ''RISP 2''\<rparr>],
         municipio_tab = [\<lparr>Municipio_cod_municipio = ''0002'', Municipio_nome = ''BETIM'',
                           Municipio_risp_id = 2\<rparr>],
         tipo_crime_tab = [\<lparr>TipoCrime_id = 1, TipoCrime_nome = ''FURTO''\<rparr>],
         crime_tab = []\<rparr>"]
  by (simp add: store_defs)

end
